theory Spec2Isabelle
  imports Complex_Main
begin

section \<open>Symbol placement (src/symbol/placement.js)\<close>

text \<open>
  A shallow embedding of the placement engine. JavaScript numbers are modelled as
  \<open>real\<close> where they are measures (opacity, time, offsets) and as \<open>nat\<close> or \<open>int\<close>
  where they are identifiers, counts and indices; \<open>NaN\<close> and the infinities are
  outside the model. An optional value (\<open>?T\<close>, \<open>undefined\<close>, \<open>null\<close>) is an
  \<open>option\<close>. A plain object used as a dictionary is a map of its own properties;
  where it is indexed by a string from outside (the collision groups, by source
  name) the members it inherits from \<open>Object.prototype\<close> are modelled too. A product
  of numbers that is rounded before it is used (in \<open>packOpacity\<close>) is rounded as
  IEEE 754 binary64 rounds it.
\<close>

subsection \<open>OpacityState, JointOpacityState, JointPlacement\<close>

record OpacityState =
  opacity :: real
  placed :: bool

text \<open>Truthiness of an optional boolean (\<open>skipFade: ?boolean\<close>).\<close>

definition truthy :: "bool option \<Rightarrow> bool" where
  "truthy b = (b = Some True)"

text \<open>\<open>new OpacityState(prevState, increment, placed, skipFade)\<close>\<close>

definition new_OpacityState ::
  "OpacityState option \<Rightarrow> real \<Rightarrow> bool \<Rightarrow> bool option \<Rightarrow> OpacityState" where
  "new_OpacityState prevState increment placed' skipFade =
     \<lparr> opacity =
         (case prevState of
            Some prev \<Rightarrow>
              max 0 (min 1 (opacity prev + (if placed prev then increment else - increment)))
          | None \<Rightarrow> (if truthy skipFade \<and> placed' then 1 else 0)),
       placed = placed' \<rparr>"

definition isHidden :: "OpacityState \<Rightarrow> bool" where
  "isHidden s = (opacity s = 0 \<and> \<not> placed s)"

text \<open>
  The fields of \<open>JointOpacityState\<close> and \<open>JointPlacement\<close> are \<open>text\<close> and \<open>icon\<close>
  in the source; they carry a prefix here, \<open>text\<close> being a reserved word.
\<close>

record JointOpacityState =
  jo_text :: OpacityState
  jo_icon :: OpacityState

definition new_JointOpacityState ::
  "JointOpacityState option \<Rightarrow> real \<Rightarrow> bool \<Rightarrow> bool \<Rightarrow> bool option \<Rightarrow> JointOpacityState" where
  "new_JointOpacityState prevState increment placedText placedIcon skipFade =
     \<lparr> jo_text = new_OpacityState (map_option jo_text prevState) increment placedText skipFade,
       jo_icon = new_OpacityState (map_option jo_icon prevState) increment placedIcon skipFade \<rparr>"

definition joint_isHidden :: "JointOpacityState \<Rightarrow> bool" where
  "joint_isHidden j = (isHidden (jo_text j) \<and> isHidden (jo_icon j))"

record JointPlacement =
  jp_text :: bool
  jp_icon :: bool
  skipFade :: bool

subsection \<open>packOpacity\<close>

text \<open>
  \<open>opacityState.opacity * 127\<close> is a product of two binary64 numbers: the exact product
  rounded to the nearest binary64 number, a tie going to the even significand. A
  binary64 number is a multiple of its quantum \<open>2 ^ (e - 52)\<close> by an integer below
  \<open>2 ^ 53\<close> in magnitude, where the exponent \<open>e\<close> runs from \<open>emin\<close> to \<open>emax\<close>; the numbers
  below \<open>2 ^ emin\<close> (the subnormal ones) have the quantum of exponent \<open>emin\<close>. A
  product of magnitude \<open>2 ^ (emax + 1)\<close> or more rounds to an infinity, which is
  outside the model.
\<close>

definition round_ties_even :: "real \<Rightarrow> int" where
  "round_ties_even y =
     (let f = \<lfloor>y\<rfloor>
      in if y - of_int f < 1 / 2 then f
         else if 1 / 2 < y - of_int f then f + 1
         else if even f then f else f + 1)"

definition emin :: int where "emin = - 1022"
definition emax :: int where "emax = 1023"

definition binary64_exponent :: "real \<Rightarrow> int" where
  "binary64_exponent x =
     (case find (\<lambda>e. \<bar>x\<bar> < 2 powi (e + 1)) [emin..emax] of
        Some e \<Rightarrow> e
      | None \<Rightarrow> emax + 1)"

definition binary64 :: "real \<Rightarrow> real" where
  "binary64 x =
     (let quantum = 2 powi (binary64_exponent x - 52)
      in of_int (round_ties_even (x / quantum)) * quantum)"

definition binary64_times :: "real \<Rightarrow> real \<Rightarrow> real" where
  "binary64_times a b = binary64 (a * b)"

definition shift25 :: int where "shift25 = 2 ^ 25"
definition shift24 :: int where "shift24 = 2 ^ 24"
definition shift17 :: int where "shift17 = 2 ^ 17"
definition shift16 :: int where "shift16 = 2 ^ 16"
definition shift9 :: int where "shift9 = 2 ^ 9"
definition shift8 :: int where "shift8 = 2 ^ 8"
definition shift1 :: int where "shift1 = 2 ^ 1"

text \<open>
  \<open>Math.floor\<close> of a binary64 number is its floor. The products and sums of the
  packing are integers below \<open>2 ^ 32\<close>, which binary64 arithmetic computes exactly.
\<close>

definition packOpacity :: "OpacityState \<Rightarrow> int" where
  "packOpacity opacityState =
     (if opacity opacityState = 0 \<and> \<not> placed opacityState then 0
      else if opacity opacityState = 1 \<and> placed opacityState then 4294967295
      else
        let targetBit = (if placed opacityState then 1 else 0);
            opacityBits = \<lfloor>binary64_times (opacity opacityState) 127\<rfloor>
        in opacityBits * shift25 + targetBit * shift24 +
           opacityBits * shift17 + targetBit * shift16 +
           opacityBits * shift9 + targetBit * shift8 +
           opacityBits * shift1 + targetBit)"

subsection \<open>CollisionGroups\<close>

record CollisionKey =
  collisionGroupID :: nat

text \<open>
  What the callers of \<open>get\<close> read of the object it returns: its \<open>ID\<close> and its
  \<open>predicate\<close>, each \<open>None\<close> where the object has no such property (\<open>undefined\<close>) or
  the property is \<open>null\<close>.
\<close>

record CollisionGroup =
  ID :: "nat option"
  predicate :: "(CollisionKey \<Rightarrow> bool) option"

text \<open>
  \<open>this.collisionGroups = {}\<close> is a plain object: besides the properties assigned to
  it (the map \<open>collisionGroups\<close> below) a lookup \<open>this.collisionGroups[name]\<close> finds the
  members it inherits from \<open>Object.prototype\<close>. Each of them is a function, or for
  \<open>__proto__\<close> the prototype object itself: truthy, and without an \<open>ID\<close> or a
  \<open>predicate\<close> property.
\<close>

definition Object_prototype_names :: "string list" where
  "Object_prototype_names =
     [''constructor'', ''__defineGetter__'', ''__defineSetter__'', ''hasOwnProperty'',
      ''__lookupGetter__'', ''__lookupSetter__'', ''isPrototypeOf'', ''propertyIsEnumerable'',
      ''toString'', ''valueOf'', ''__proto__'', ''toLocaleString'']"

definition inherited_member :: "CollisionGroup" where
  "inherited_member = \<lparr> ID = None, predicate = None \<rparr>"

record CollisionGroups =
  collisionGroups :: "string \<rightharpoonup> CollisionGroup"
  maxGroupID :: nat
  crossSourceCollisions :: bool

definition new_CollisionGroups :: "bool \<Rightarrow> CollisionGroups" where
  "new_CollisionGroups csc =
     \<lparr> collisionGroups = Map.empty, maxGroupID = 0, crossSourceCollisions = csc \<rparr>"

text \<open>
  \<open>this.collisionGroups[sourceID]\<close>: the own property if there is one, else the
  inherited member if the name is one of \<open>Object.prototype\<close>, else \<open>undefined\<close>.
\<close>

definition collisionGroups_at :: "CollisionGroups \<Rightarrow> string \<Rightarrow> CollisionGroup option" where
  "collisionGroups_at cg name =
     (case collisionGroups cg name of
        Some g \<Rightarrow> Some g
      | None \<Rightarrow> if name \<in> set Object_prototype_names then Some inherited_member else None)"

text \<open>
  \<open>get(sourceID)\<close>: the object returned and the instance as the call leaves it. The
  final \<open>return this.collisionGroups[sourceID]\<close> finds what the first lookup found, or
  the group just assigned.
\<close>

definition CollisionGroups_get ::
  "string \<Rightarrow> CollisionGroups \<Rightarrow> CollisionGroup \<times> CollisionGroups" where
  "CollisionGroups_get sourceID cg =
     (if \<not> crossSourceCollisions cg then
        (case collisionGroups_at cg sourceID of
           None \<Rightarrow>
             let nextGroupID = maxGroupID cg + 1;
                 g = \<lparr> ID = Some nextGroupID,
                       predicate = Some (\<lambda>key. collisionGroupID key = nextGroupID) \<rparr>
             in (g, cg\<lparr> maxGroupID := nextGroupID,
                        collisionGroups := (collisionGroups cg)(sourceID \<mapsto> g) \<rparr>)
         | Some g \<Rightarrow> (g, cg))
      else (\<lparr> ID = Some 0, predicate = None \<rparr>, cg))"

text \<open>A sequence of \<open>get\<close> calls on one instance: the objects returned, in order.\<close>

fun get_all :: "string list \<Rightarrow> CollisionGroups \<Rightarrow> CollisionGroup list \<times> CollisionGroups" where
  "get_all [] cg = ([], cg)"
| "get_all (s # ss) cg =
     (let (g, cg') = CollisionGroups_get s cg;
          (gs, cg'') = get_all ss cg'
      in (g # gs, cg''))"

text \<open>
  The state of an instance without cross-source collisions: the groups assigned
  are numbered from 1 to \<open>maxGroupID\<close>, no number twice, each with the predicate of
  its number, and none under a name of \<open>Object.prototype\<close>.
\<close>

definition groups_ok :: "CollisionGroups \<Rightarrow> bool" where
  "groups_ok cg \<longleftrightarrow>
     \<not> crossSourceCollisions cg \<and>
     (\<forall>s g. collisionGroups cg s = Some g \<longrightarrow>
        s \<notin> set Object_prototype_names \<and>
        (\<exists>n. ID g = Some n \<and> 0 < n \<and> n \<le> maxGroupID cg \<and>
             predicate g = Some (\<lambda>key. collisionGroupID key = n))) \<and>
     (\<forall>s t g h. collisionGroups cg s = Some g \<and> collisionGroups cg t = Some h \<and> ID g = ID h
        \<longrightarrow> s = t)"

subsection \<open>Dictionaries keyed by crossTileID\<close>

text \<open>
  \<open>placements\<close>, \<open>opacities\<close> and \<open>dynamicOffsets\<close> are objects keyed by crossTileID that
  the code both indexes and enumerates (\<open>for (const crossTileID in ...)\<close>). They are
  association lists: \<open>lookup\<close> is \<open>obj[k]\<close>, \<open>assign\<close> is \<open>obj[k] = v\<close>, \<open>dict_keys\<close> is the
  enumeration. \<open>assign\<close> keeps integer keys in ascending order, the order in which
  JavaScript enumerates them.
\<close>

type_synonym 'v dict = "(nat \<times> 'v) list"

definition lookup :: "'v dict \<Rightarrow> nat \<Rightarrow> 'v option" where
  "lookup d k = map_of d k"

fun assign :: "nat \<Rightarrow> 'v \<Rightarrow> 'v dict \<Rightarrow> 'v dict" where
  "assign k v [] = [(k, v)]"
| "assign k v ((k', v') # d) =
     (if k < k' then (k, v) # (k', v') # d
      else if k = k' then (k, v) # d
      else (k', v') # assign k v d)"

definition dict_keys :: "'v dict \<Rightarrow> nat list" where
  "dict_keys d = map fst d"

subsection \<open>Placement\<close>

text \<open>
  What a call can raise: a failed \<open>assert\<close>, and the TypeError of reading a property
  of \<open>undefined\<close> (the collision arrays of a bucket that has none).
\<close>

datatype error = AssertionError | TypeError

record DynamicOffset =
  radialOffset :: real
  width :: real
  height :: real
  anchor :: string
  textBoxScale :: real
  prevAnchor :: "string option"

record Transform =
  zoom :: real
  angle :: real

text \<open>
  The constructor severs the predecessor's own \<open>prevPlacement\<close> link, and of a
  predecessor the code reads \<open>placements\<close>, \<open>opacities\<close>, \<open>dynamicOffsets\<close>,
  \<open>commitTime\<close> and \<open>lastPlacementChangeTime\<close> only: a predecessor is a
  \<open>PlacementCore\<close>, and a \<open>Placement\<close> extends it. The collision index is the
  collaborator's own state, of a type \<open>'ci\<close> left open.
\<close>

record PlacementCore =
  placements :: "JointPlacement dict"
  opacities :: "JointOpacityState dict"
  dynamicOffsets :: "DynamicOffset dict"
  commitTime :: real
  lastPlacementChangeTime :: "real option"

record 'ci Placement = PlacementCore +
  transform :: Transform
  collisionIndex :: 'ci
  stale :: bool
  fadeDuration :: real
  collisionGroups_of :: CollisionGroups
  prevPlacement :: "PlacementCore option"

subsubsection \<open>commit\<close>

text \<open>The body of the first loop of \<open>commit\<close>, for one crossTileID of \<open>this.placements\<close>.\<close>

definition commit_placed ::
  "JointPlacement dict \<Rightarrow> JointOpacityState dict \<Rightarrow> real \<Rightarrow> nat \<Rightarrow>
   JointOpacityState dict \<times> bool \<Rightarrow> JointOpacityState dict \<times> bool" where
  "commit_placed thisPlacements prevOpacities increment crossTileID acc =
     (case acc of (thisOpacities, placementChanged) \<Rightarrow>
        (case lookup thisPlacements crossTileID of
           None \<Rightarrow> acc
         | Some jointPlacement \<Rightarrow>
             (case lookup prevOpacities crossTileID of
                Some prevOpacity \<Rightarrow>
                  (assign crossTileID
                     (new_JointOpacityState (Some prevOpacity) increment
                        (jp_text jointPlacement) (jp_icon jointPlacement) None)
                     thisOpacities,
                   placementChanged \<or>
                     jp_text jointPlacement \<noteq> placed (jo_text prevOpacity) \<or>
                     jp_icon jointPlacement \<noteq> placed (jo_icon prevOpacity))
              | None \<Rightarrow>
                  (assign crossTileID
                     (new_JointOpacityState None increment
                        (jp_text jointPlacement) (jp_icon jointPlacement)
                        (Some (skipFade jointPlacement)))
                     thisOpacities,
                   placementChanged \<or> jp_text jointPlacement \<or> jp_icon jointPlacement))))"

text \<open>The body of the second loop, for one crossTileID of \<open>prevOpacities\<close>.\<close>

definition commit_faded ::
  "JointOpacityState dict \<Rightarrow> real \<Rightarrow> nat \<Rightarrow>
   JointOpacityState dict \<times> bool \<Rightarrow> JointOpacityState dict \<times> bool" where
  "commit_faded prevOpacities increment crossTileID acc =
     (case acc of (thisOpacities, placementChanged) \<Rightarrow>
        (case lookup prevOpacities crossTileID of
           None \<Rightarrow> acc
         | Some prevOpacity \<Rightarrow>
             (if lookup thisOpacities crossTileID = None then
                (let jointOpacity = new_JointOpacityState (Some prevOpacity) increment False False None
                 in if \<not> joint_isHidden jointOpacity then
                      (assign crossTileID jointOpacity thisOpacities,
                       placementChanged \<or> placed (jo_text prevOpacity) \<or> placed (jo_icon prevOpacity))
                    else acc)
              else acc)))"

text \<open>The body of the third loop, for one crossTileID of \<open>prevOffsets\<close>.\<close>

definition commit_offset ::
  "DynamicOffset dict \<Rightarrow> JointOpacityState dict \<Rightarrow> nat \<Rightarrow>
   DynamicOffset dict \<Rightarrow> DynamicOffset dict" where
  "commit_offset prevOffsets thisOpacities crossTileID thisOffsets =
     (case lookup prevOffsets crossTileID of
        None \<Rightarrow> thisOffsets
      | Some prevOffset \<Rightarrow>
          (if lookup thisOffsets crossTileID = None \<and>
              (case lookup thisOpacities crossTileID of
                 None \<Rightarrow> False | Some j \<Rightarrow> \<not> joint_isHidden j)
           then assign crossTileID prevOffset thisOffsets
           else thisOffsets))"

definition commit_increment :: "PlacementCore option \<Rightarrow> real \<Rightarrow> real \<Rightarrow> real" where
  "commit_increment prevPlacement' fade now =
     (case prevPlacement' of
        Some prev \<Rightarrow> (if fade \<noteq> 0 then (now - commitTime prev) / fade else 1)
      | None \<Rightarrow> 1)"

text \<open>
  \<open>commit(prevPlacement, now)\<close>: the error the call raises, if any, and \<open>this\<close> as the
  call leaves it. The assertion stands after the three loops, so a call that fails it
  has written \<open>opacities\<close> and \<open>dynamicOffsets\<close> already.
\<close>

definition commit ::
  "PlacementCore option \<Rightarrow> real \<Rightarrow> 'ci Placement \<Rightarrow> error option \<times> 'ci Placement" where
  "commit prevPlacement' now this =
     (let increment = commit_increment prevPlacement' (fadeDuration this) now;
          prevOpacities = (case prevPlacement' of Some prev \<Rightarrow> opacities prev | None \<Rightarrow> []);
          prevOffsets = (case prevPlacement' of Some prev \<Rightarrow> dynamicOffsets prev | None \<Rightarrow> []);
          acc1 = fold (commit_placed (placements this) prevOpacities increment)
                   (dict_keys (placements this)) (opacities this, False);
          acc2 = fold (commit_faded prevOpacities increment) (dict_keys prevOpacities) acc1;
          thisOpacities = fst acc2;
          placementChanged = snd acc2;
          thisOffsets = fold (commit_offset prevOffsets thisOpacities)
                          (dict_keys prevOffsets) (dynamicOffsets this);
          this' = this\<lparr> commitTime := now, opacities := thisOpacities,
                         dynamicOffsets := thisOffsets \<rparr>
      in if (case prevPlacement' of
               Some prev \<Rightarrow> lastPlacementChangeTime prev = None | None \<Rightarrow> False)
         then (Some AssertionError, this')
         else if placementChanged then (None, this'\<lparr> lastPlacementChangeTime := Some now \<rparr>)
         else if lastPlacementChangeTime this' = None then
           (None, this'\<lparr> lastPlacementChangeTime :=
                     (case prevPlacement' of
                        Some prev \<Rightarrow> lastPlacementChangeTime prev | None \<Rightarrow> Some now) \<rparr>)
         else (None, this'))"

subsection \<open>Buckets, symbol instances and the collaborators\<close>

text \<open>
  A reference to an object the code only hands on to a collaborator (a matrix, size
  data, a vertex array) is an \<open>extref\<close>.
\<close>

type_synonym extref = nat

record SingleCollisionBox =
  x1 :: real
  y1 :: real
  x2 :: real
  y2 :: real
  anchorPointX :: real
  anchorPointY :: real

record CollisionArrays =
  textBox :: "SingleCollisionBox option"
  iconBox :: "SingleCollisionBox option"
  textCircles :: "real list option"
  textFeatureIndex :: "nat option"
  iconFeatureIndex :: "nat option"

record SymbolInstance =
  crossTileID :: nat
  rightJustifiedTextSymbolIndex :: int
  centerJustifiedTextSymbolIndex :: int
  leftJustifiedTextSymbolIndex :: int
  verticalPlacedTextSymbolIndex :: int
  numHorizontalGlyphVertices :: nat
  numVerticalGlyphVertices :: nat
  numIconVertices :: nat
  layoutTextSize :: real
  dynamicTextOffset :: real

text \<open>
  An entry of \<open>bucket.text.placedSymbolArray\<close>; its \<open>crossTileID\<close> field is
  \<open>placed_crossTileID\<close> here.
\<close>

record PlacedSymbol =
  placed_crossTileID :: nat
  hidden :: nat

text \<open>
  The layout properties the placement reads with \<open>layout.get('...')\<close>. The value of
  \<open>dynamic-text-anchor\<close> is an array, held by reference: its address in \<open>arrays\<close>.
\<close>

record Layout =
  text_optional :: bool
  icon_optional :: bool
  text_allow_overlap :: bool
  icon_allow_overlap :: bool
  text_ignore_placement :: bool
  icon_ignore_placement :: bool
  dynamic_text_anchor :: "nat option"
  text_rotation_alignment :: string
  text_pitch_alignment :: string

record SymbolBucket =
  layout :: Layout
  symbolInstances :: "SymbolInstance list"
  collisionArrays :: "CollisionArrays list option"
  placedSymbolArray :: "PlacedSymbol list"
  hasIconData :: bool
  hasTextData :: bool
  sourceID :: string
  bucketInstanceId :: nat
  justReloaded :: bool
  tilePixelRatio :: real
  textSizeData :: extref
  lineVertexArray :: extref
  glyphOffsetArray :: extref

text \<open>
  The results of \<open>placeCollisionBox\<close>, \<open>{box, offscreen}\<close>, and of
  \<open>placeCollisionCircles\<close>, \<open>{circles, offscreen}\<close>.
\<close>

record PlacedBoxes =
  box :: "real list"
  offscreen :: bool

record PlacedCircles =
  circles :: "real list"
  circles_offscreen :: bool

text \<open>A struct-array view: the array and the index it was taken at.\<close>

type_synonym PlacedSymbolRef = "PlacedSymbol list \<times> int option"

text \<open>
  What the placement consumes from its collaborators, none of it among the sources:
  the four operations of the CollisionIndex (each may change the index, so each
  returns it), \<open>getAnchorJustification\<close> and \<open>getTextboxScale\<close> of symbol_layout,
  \<open>getAnchorAlignment\<close> of shaping, the two evaluators of symbol_size (the third
  argument of \<open>evaluateSizeForZoom\<close>, the constant \<open>text-size\<close> property, is left out),
  \<open>Point._rotate\<close> and the bucket's \<open>deserializeCollisionBoxes\<close>, which gives the
  bucket its \<open>collisionArrays\<close>. They are parameters of the model.
\<close>

record 'ci Externals =
  placeCollisionBox ::
    "'ci \<Rightarrow> SingleCollisionBox \<Rightarrow> bool \<Rightarrow> real \<Rightarrow> extref \<Rightarrow>
     (CollisionKey \<Rightarrow> bool) option \<Rightarrow> PlacedBoxes \<times> 'ci"
  placeCollisionCircles ::
    "'ci \<Rightarrow> real list \<Rightarrow> bool \<Rightarrow> real \<Rightarrow> real \<Rightarrow> PlacedSymbolRef \<Rightarrow> extref \<Rightarrow> extref \<Rightarrow>
     real \<Rightarrow> extref \<Rightarrow> extref \<Rightarrow> bool \<Rightarrow> bool \<Rightarrow>
     (CollisionKey \<Rightarrow> bool) option \<Rightarrow> PlacedCircles \<times> 'ci"
  insertCollisionBox :: "'ci \<Rightarrow> real list \<Rightarrow> bool \<Rightarrow> nat \<Rightarrow> nat \<Rightarrow> nat option \<Rightarrow> 'ci"
  insertCollisionCircles :: "'ci \<Rightarrow> real list \<Rightarrow> bool \<Rightarrow> nat \<Rightarrow> nat \<Rightarrow> nat option \<Rightarrow> 'ci"
  getAnchorJustification :: "string \<Rightarrow> string"
  getAnchorAlignment :: "string \<Rightarrow> real \<times> real"
  getTextboxScale :: "real \<Rightarrow> real \<Rightarrow> real"
  evaluateSizeForZoom :: "extref \<Rightarrow> real \<Rightarrow> extref"
  evaluateSizeForFeature :: "extref \<Rightarrow> extref \<Rightarrow> PlacedSymbolRef \<Rightarrow> real"
  rotate :: "real \<times> real \<Rightarrow> real \<Rightarrow> real \<times> real"
  deserializeCollisionBoxes :: "SymbolBucket \<Rightarrow> extref \<Rightarrow> CollisionArrays list"

subsection \<open>The state a placement pass works on\<close>

text \<open>
  \<open>self\<close> is \<open>this\<close>, the Placement; \<open>bucket\<close> the bucket being placed;
  \<open>warnOnceHistory\<close> the warnings given so far; \<open>arrays\<close> the store of the anchor
  arrays, an array's address being its index. The module's constant
  \<open>AUTO_DYNAMIC_PLACEMENT\<close> is the array allocated first, at address 0.
\<close>

record 'ci PState =
  self :: "'ci Placement"
  bucket :: SymbolBucket
  warnOnceHistory :: "string list"
  arrays :: "string list list"

definition AUTO_DYNAMIC_PLACEMENT :: nat where
  "AUTO_DYNAMIC_PLACEMENT = 0"

definition AUTO_DYNAMIC_PLACEMENT_elements :: "string list" where
  "AUTO_DYNAMIC_PLACEMENT_elements =
     [''center'', ''top'', ''bottom'', ''left'', ''right'',
      ''top-left'', ''top-right'', ''bottom-left'', ''bottom-right'']"

text \<open>
  Reading the array at an address (an address the store does not hold reads as the
  empty array; the code holds no such reference); \<open>xs[0]\<close>; allocating a new array;
  writing an array in place.
\<close>

definition deref :: "string list list \<Rightarrow> nat \<Rightarrow> string list" where
  "deref store a = (if a < length store then store ! a else [])"

definition first :: "'a list \<Rightarrow> 'a option" where
  "first xs = (case xs of [] \<Rightarrow> None | x # _ \<Rightarrow> Some x)"

definition alloc :: "string list \<Rightarrow> string list list \<Rightarrow> nat \<times> string list list" where
  "alloc xs store = (length store, store @ [xs])"

definition write_array :: "nat \<Rightarrow> string list \<Rightarrow> string list list \<Rightarrow> string list list" where
  "write_array a xs store = store[a := xs]"

text \<open>
  Modelled from the spec: \<open>warnOnce\<close> of src/util/util.js is not among the sources;
  the spec has the warning emitted one time. The history lists the messages emitted.
\<close>

definition warnOnce :: "string \<Rightarrow> string list \<Rightarrow> string list" where
  "warnOnce message history =
     (if message \<in> set history then history else history @ [message])"

text \<open>
  What the attempts for the anchors of a label leave as it is: the symbol instances
  of the bucket, the arrays and the link to the previous placement.
\<close>

definition frame :: "'ci PState \<Rightarrow> 'ci PState \<Rightarrow> bool" where
  "frame st st' \<longleftrightarrow>
     symbolInstances (bucket st') = symbolInstances (bucket st) \<and>
     arrays st' = arrays st \<and>
     prevPlacement (self st') = prevPlacement (self st)"

subsection \<open>Dynamic offsets\<close>

definition getDynamicOffset :: "string \<Rightarrow> real \<Rightarrow> real \<times> real" where
  "getDynamicOffset anchor' radialOffset' =
     (let hypotenuse = radialOffset' / sqrt 2;
          y = (if anchor' = ''top-right'' \<or> anchor' = ''top-left'' then hypotenuse
               else if anchor' = ''bottom-right'' \<or> anchor' = ''bottom-left'' then - hypotenuse
               else if anchor' = ''bottom'' then - radialOffset'
               else if anchor' = ''top'' then radialOffset'
               else 0);
          x = (if anchor' = ''top-right'' \<or> anchor' = ''bottom-right'' then - hypotenuse
               else if anchor' = ''top-left'' \<or> anchor' = ''bottom-left'' then hypotenuse
               else if anchor' = ''left'' then radialOffset'
               else if anchor' = ''right'' then - radialOffset'
               else 0)
      in (x, y))"

definition calculateDynamicLayoutOffset ::
  "'ci Externals \<Rightarrow> string \<Rightarrow> real \<Rightarrow> real \<Rightarrow> real \<Rightarrow> real \<Rightarrow> real \<times> real" where
  "calculateDynamicLayoutOffset E anchor' width' height' radialOffset' textBoxScale' =
     (let (horizontalAlign, verticalAlign) = getAnchorAlignment E anchor';
          shiftX = - (horizontalAlign - 0.5) * width';
          shiftY = - (verticalAlign - 0.5) * height';
          offset = (if radialOffset' \<noteq> 0 then getDynamicOffset anchor' radialOffset' else (0, 0))
      in (shiftX + fst offset * textBoxScale', shiftY + snd offset * textBoxScale'))"

definition shiftDynamicCollisionBox ::
  "'ci Externals \<Rightarrow> SingleCollisionBox \<Rightarrow> real \<Rightarrow> real \<Rightarrow> bool \<Rightarrow> bool \<Rightarrow> real \<Rightarrow>
   SingleCollisionBox" where
  "shiftDynamicCollisionBox E collisionBox shiftX shiftY rotateWithMap pitchWithMap angle' =
     (let rotatedOffset =
            (if rotateWithMap
             then rotate E (shiftX, shiftY) (if pitchWithMap then angle' else - angle')
             else (shiftX, shiftY))
      in \<lparr> x1 = x1 collisionBox + fst rotatedOffset,
           y1 = y1 collisionBox + snd rotatedOffset,
           x2 = x2 collisionBox + fst rotatedOffset,
           y2 = y2 collisionBox + snd rotatedOffset,
           anchorPointX = anchorPointX collisionBox,
           anchorPointY = anchorPointY collisionBox \<rparr>)"

subsection \<open>hideUnplacedJustifications\<close>

text \<open>
  The object \<open>{"left": ..., "center": ..., "right": ...}\<close> that both
  \<open>placeLayerBucket\<close> (\<open>justifications\<close>) and \<open>hideUnplacedJustifications\<close>
  (\<open>instances\<close>) build from a symbol instance.
\<close>

definition justification_indices :: "SymbolInstance \<Rightarrow> string \<Rightarrow> int option" where
  "justification_indices symbolInstance =
     [''left'' \<mapsto> leftJustifiedTextSymbolIndex symbolInstance,
      ''center'' \<mapsto> centerJustifiedTextSymbolIndex symbolInstance,
      ''right'' \<mapsto> rightJustifiedTextSymbolIndex symbolInstance]"

text \<open>
  \<open>placedSymbolArray.get(index).crossTileID = v\<close>: a write through a struct-array
  view, which leaves the array as it is when the index is outside it.
\<close>

definition set_crossTileID :: "int option \<Rightarrow> nat \<Rightarrow> PlacedSymbol list \<Rightarrow> PlacedSymbol list" where
  "set_crossTileID index v arr =
     (case index of
        None \<Rightarrow> arr
      | Some n \<Rightarrow>
          (if 0 \<le> n \<and> nat n < length arr
           then arr[nat n := (arr ! nat n)\<lparr> placed_crossTileID := v \<rparr>]
           else arr))"

definition hideUnplacedJustifications ::
  "SymbolBucket \<Rightarrow> string \<Rightarrow> SymbolInstance \<Rightarrow> SymbolBucket" where
  "hideUnplacedJustifications b placedJustification symbolInstance =
     (let instances = justification_indices symbolInstance;
          placedIndex = instances placedJustification;
          arr = set_crossTileID placedIndex (crossTileID symbolInstance) (placedSymbolArray b)
      in b\<lparr> placedSymbolArray :=
              fold (\<lambda>justification a.
                      (case instances justification of
                         None \<Rightarrow> a
                       | Some index \<Rightarrow>
                           (if index \<ge> 0 \<and> Some index \<noteq> placedIndex
                            then set_crossTileID (Some index) 0 a
                            else a)))
                [''left'', ''center'', ''right''] arr \<rparr>)"

subsection \<open>attemptAnchorPlacement\<close>

definition autoWarning :: string where
  "autoWarning =
     ''Auto is not valid as any but the first element of the `dynamic-text-anchor` array.''"

text \<open>
  The arguments of \<open>placeLayerBucket\<close> that are the same for every symbol instance,
  and the constants it computes before its loop.
\<close>

record BucketArgs =
  posMatrix :: extref
  textLabelPlaneMatrix :: extref
  iconLabelPlaneMatrix :: extref
  scale :: real
  textPixelRatio :: real
  showCollisionBoxes :: bool
  holdingForFade :: bool
  collisionBoxArray :: "extref option"

record BucketLocals =
  partiallyEvaluatedTextSize :: extref
  textOptional :: bool
  iconOptional :: bool
  textAllowOverlap :: bool
  iconAllowOverlap :: bool
  alwaysShowText :: bool
  alwaysShowIcon :: bool
  collisionGroup :: CollisionGroup
  rotateWithMap :: bool
  pitchWithMap :: bool

text \<open>
  The anchor the label had in the previous placement, recorded when its text was
  placed there (\<open>prevAnchor\<close> of \<open>attemptAnchorPlacement\<close>).
\<close>

definition previousAnchor :: "PlacementCore option \<Rightarrow> nat \<Rightarrow> string option" where
  "previousAnchor prev c =
     (case prev of
        None \<Rightarrow> None
      | Some pp \<Rightarrow>
          (case lookup (dynamicOffsets pp) c of
             None \<Rightarrow> None
           | Some po \<Rightarrow>
               (case lookup (placements pp) c of
                  None \<Rightarrow> None
                | Some jp \<Rightarrow> if jp_text jp then Some (anchor po) else None)))"

text \<open>
  The result is the error raised, if any, the value returned (\<open>None\<close> for
  \<open>undefined\<close>) and the state as the call leaves it.
\<close>

definition attemptAnchorPlacement ::
  "'ci Externals \<Rightarrow> string \<Rightarrow> nat \<Rightarrow> CollisionArrays \<Rightarrow> SingleCollisionBox \<Rightarrow> real \<Rightarrow> real \<Rightarrow>
   bool \<Rightarrow> bool \<Rightarrow> real \<Rightarrow> extref \<Rightarrow> CollisionGroup \<Rightarrow> (string \<Rightarrow> int option) \<Rightarrow> bool \<Rightarrow>
   SymbolInstance \<Rightarrow> 'ci PState \<Rightarrow> error option \<times> PlacedBoxes option \<times> 'ci PState" where
  "attemptAnchorPlacement E anchor' dynamicAnchors collisionArrays' textBox' dynamicTextOffset'
     textBoxScale' rotateWithMap' pitchWithMap' textPixelRatio' posMatrix' collisionGroup'
     justifications textAllowOverlap' symbolInstance st =
     (if iconBox collisionArrays' \<noteq> None \<and>
         first (deref (arrays st) dynamicAnchors) = Some ''auto'' \<and> anchor' = ''center''
      then (None, None, st)
      else if anchor' = ''auto'' then
        (None, None,
         st\<lparr> warnOnceHistory := warnOnce autoWarning (warnOnceHistory st) \<rparr>)
      else
        let justification = getAnchorJustification E anchor';
            justifiedPlacedSymbol = justifications justification
        in if (case justifiedPlacedSymbol of None \<Rightarrow> False | Some n \<Rightarrow> n < 0)
           then (None, None, st)
           else
             let width' = x2 textBox' - x1 textBox';
                 height' = y2 textBox' - y1 textBox';
                 shift = calculateDynamicLayoutOffset E anchor' width' height'
                           dynamicTextOffset' textBoxScale'
             in (case textBox collisionArrays' of
                   None \<Rightarrow> (None, None, st)
                 | Some tb \<Rightarrow>
                     let (placedGlyphBoxes, ci) =
                           placeCollisionBox E (collisionIndex (self st))
                             (shiftDynamicCollisionBox E tb (fst shift) (snd shift)
                                rotateWithMap' pitchWithMap' (angle (transform (self st))))
                             textAllowOverlap' textPixelRatio' posMatrix'
                             (predicate collisionGroup');
                         st1 = st\<lparr> self := (self st)\<lparr> collisionIndex := ci \<rparr> \<rparr>
                     in if length (box placedGlyphBoxes) > 0 then
                          (if crossTileID symbolInstance = 0 then (Some AssertionError, None, st1)
                           else
                             (None, Some placedGlyphBoxes,
                              st1\<lparr> self := (self st1)\<lparr> dynamicOffsets :=
                                      assign (crossTileID symbolInstance)
                                        \<lparr> radialOffset = dynamicTextOffset',
                                          width = width',
                                          height = height',
                                          anchor = anchor',
                                          textBoxScale = textBoxScale',
                                          prevAnchor =
                                            previousAnchor (prevPlacement (self st1))
                                              (crossTileID symbolInstance) \<rparr>
                                        (dynamicOffsets (self st1)) \<rparr>,
                                   bucket := hideUnplacedJustifications (bucket st1)
                                               justification symbolInstance \<rparr>))
                        else (None, None, st1)))"

subsection \<open>placeLayerBucket\<close>

text \<open>
  The candidate anchors of a label (the \<open>anchors\<close> of \<open>placeLayerBucket\<close>): the
  address of the array the loop runs over, and the store. \<open>filter\<close> allocates a new
  array and \<open>unshift\<close> writes the array it is called on.
\<close>

definition candidateAnchors ::
  "nat \<Rightarrow> DynamicOffset option \<Rightarrow> string list list \<Rightarrow> nat \<times> string list list" where
  "candidateAnchors dynamicAnchors prevOffsets store =
     (let anchors = (if first (deref store dynamicAnchors) = Some ''auto''
                     then AUTO_DYNAMIC_PLACEMENT else dynamicAnchors)
      in (case prevOffsets of
            None \<Rightarrow> (anchors, store)
          | Some po \<Rightarrow>
              (if first (deref store anchors) \<noteq> Some (anchor po) then
                 let (filtered, store1) =
                       alloc (filter (\<lambda>a. a \<noteq> anchor po) (deref store anchors)) store;
                     store2 = write_array filtered (anchor po # deref store1 filtered) store1
                 in (filtered, store2)
               else (anchors, store))))"

text \<open>
  The loop \<open>for (const anchor of anchors)\<close>, which stops at the first anchor that is
  placed; \<open>try\<close> is the attempt for one anchor.
\<close>

fun tryAnchors ::
  "(string \<Rightarrow> 'st \<Rightarrow> error option \<times> PlacedBoxes option \<times> 'st) \<Rightarrow> string list \<Rightarrow> 'st \<Rightarrow>
   error option \<times> PlacedBoxes option \<times> 'st" where
  "tryAnchors try [] st = (None, None, st)"
| "tryAnchors try (a # as) st =
     (case try a st of
        (Some e, r, st') \<Rightarrow> (Some e, r, st')
      | (None, Some placedGlyphBoxes, st') \<Rightarrow> (None, Some placedGlyphBoxes, st')
      | (None, None, st') \<Rightarrow> tryAnchors try as st')"

definition previousOffsets :: "PlacementCore option \<Rightarrow> nat \<Rightarrow> DynamicOffset option" where
  "previousOffsets prev c =
     (case prev of None \<Rightarrow> None | Some pp \<Rightarrow> lookup (dynamicOffsets pp) c)"

text \<open>
  The attempt the loop makes for one anchor: \<open>this.attemptAnchorPlacement(anchor, ...)\<close>
  with the arguments \<open>placeLayerBucket\<close> passes.
\<close>

definition anchorAttempt ::
  "'ci Externals \<Rightarrow> BucketArgs \<Rightarrow> BucketLocals \<Rightarrow> nat \<Rightarrow> CollisionArrays \<Rightarrow>
   SingleCollisionBox \<Rightarrow> SymbolInstance \<Rightarrow> real \<Rightarrow> string \<Rightarrow> 'ci PState \<Rightarrow>
   error option \<times> PlacedBoxes option \<times> 'ci PState" where
  "anchorAttempt E args locals dynamicAnchors collisionArrays' textBox' symbolInstance
     textBoxScale' anchor' st =
     attemptAnchorPlacement E anchor' dynamicAnchors collisionArrays' textBox'
       (dynamicTextOffset symbolInstance) textBoxScale'
       (rotateWithMap locals) (pitchWithMap locals) (textPixelRatio args)
       (posMatrix args) (collisionGroup locals)
       (justification_indices symbolInstance) (textAllowOverlap locals) symbolInstance st"

text \<open>
  After the loop: a label that got no dynamic offset in this pass copies the one of
  the previous placement, for the fade animation.
\<close>

definition inheritPreviousOffset ::
  "'ci Externals \<Rightarrow> SymbolInstance \<Rightarrow> error option \<times> PlacedBoxes option \<times> 'ci PState \<Rightarrow>
   error option \<times> PlacedBoxes option \<times> 'ci PState" where
  "inheritPreviousOffset E symbolInstance res =
     (case res of
        (Some e, r, st1) \<Rightarrow> (Some e, r, st1)
      | (None, placedGlyphBoxes, st1) \<Rightarrow>
          (let c = crossTileID symbolInstance
           in if lookup (dynamicOffsets (self st1)) c = None then
                (case previousOffsets (prevPlacement (self st1)) c of
                   None \<Rightarrow> (None, placedGlyphBoxes, st1)
                 | Some prevOffset \<Rightarrow>
                     (None, placedGlyphBoxes,
                      st1\<lparr> self := (self st1)\<lparr> dynamicOffsets :=
                              assign c prevOffset (dynamicOffsets (self st1)) \<rparr>,
                           bucket := hideUnplacedJustifications (bucket st1)
                                       (getAnchorJustification E (anchor prevOffset))
                                       symbolInstance \<rparr>))
              else (None, placedGlyphBoxes, st1)))"

text \<open>
  The branch of a label with a text box in a layer with \<open>dynamic-text-anchor\<close>: the
  error, \<open>placedGlyphBoxes\<close> (with \<open>placeText\<close> true exactly when it is defined)
  and the state.
\<close>

definition placeDynamicText ::
  "'ci Externals \<Rightarrow> BucketArgs \<Rightarrow> BucketLocals \<Rightarrow> nat \<Rightarrow> CollisionArrays \<Rightarrow>
   SingleCollisionBox \<Rightarrow> SymbolInstance \<Rightarrow> 'ci PState \<Rightarrow>
   error option \<times> PlacedBoxes option \<times> 'ci PState" where
  "placeDynamicText E args locals dynamicAnchors collisionArrays' textBox' symbolInstance st =
     (let textBoxScale' = getTextboxScale E (tilePixelRatio (bucket st)) (layoutTextSize symbolInstance);
          (anchors, store) =
            candidateAnchors dynamicAnchors
              (previousOffsets (prevPlacement (self st)) (crossTileID symbolInstance)) (arrays st)
      in inheritPreviousOffset E symbolInstance
           (tryAnchors
              (anchorAttempt E args locals dynamicAnchors collisionArrays' textBox' symbolInstance
                 textBoxScale')
              (deref store anchors) (st\<lparr> arrays := store \<rparr>)))"

text \<open>
  "Combine the scales for icons and text": the coupling of \<open>placeText\<close> and
  \<open>placeIcon\<close>, returned in that order.
\<close>

definition coupleTextAndIcon ::
  "bool \<Rightarrow> bool \<Rightarrow> SymbolInstance \<Rightarrow> bool \<Rightarrow> bool \<Rightarrow> bool \<times> bool" where
  "coupleTextAndIcon textOptional' iconOptional' symbolInstance placeText placeIcon =
     (let iconWithoutText = (textOptional' \<or>
            (numHorizontalGlyphVertices symbolInstance = 0 \<and>
             numVerticalGlyphVertices symbolInstance = 0));
          textWithoutIcon = (iconOptional' \<or> numIconVertices symbolInstance = 0)
      in if \<not> iconWithoutText \<and> \<not> textWithoutIcon then (placeIcon \<and> placeText, placeIcon \<and> placeText)
         else if \<not> textWithoutIcon then (placeIcon \<and> placeText, placeIcon)
         else if \<not> iconWithoutText then (placeText, placeIcon \<and> placeText)
         else (placeText, placeIcon))"

text \<open>
  The text box of a label: one attempt in a layer with a fixed anchor, the anchor
  search otherwise. The result is the error, \<open>placedGlyphBoxes\<close>, \<open>placeText\<close> and
  the state.
\<close>

definition placeTextBox ::
  "'ci Externals \<Rightarrow> BucketArgs \<Rightarrow> BucketLocals \<Rightarrow> CollisionArrays \<Rightarrow> SymbolInstance \<Rightarrow>
   'ci PState \<Rightarrow> error option \<times> PlacedBoxes option \<times> bool \<times> 'ci PState" where
  "placeTextBox E args locals collisionArrays' symbolInstance st =
     (case textBox collisionArrays' of
        None \<Rightarrow> (None, None, False, st)
      | Some textBox' \<Rightarrow>
          (case dynamic_text_anchor (layout (bucket st)) of
             None \<Rightarrow>
               let (placedGlyphBoxes, ci) =
                     placeCollisionBox E (collisionIndex (self st)) textBox'
                       (text_allow_overlap (layout (bucket st))) (textPixelRatio args)
                       (posMatrix args) (predicate (collisionGroup locals))
               in (None, Some placedGlyphBoxes, length (box placedGlyphBoxes) > 0,
                   st\<lparr> self := (self st)\<lparr> collisionIndex := ci \<rparr> \<rparr>)
           | Some dynamicAnchors \<Rightarrow>
               (case placeDynamicText E args locals dynamicAnchors collisionArrays' textBox'
                       symbolInstance st of
                  (e, placedGlyphBoxes, st1) \<Rightarrow>
                    (e, placedGlyphBoxes, placedGlyphBoxes \<noteq> None, st1))))"

text \<open>
  The circles of a label along a line: \<open>placedGlyphCircles\<close>, \<open>placeText\<close>,
  \<open>offscreen\<close> and the state.
\<close>

definition placeTextCircles ::
  "'ci Externals \<Rightarrow> BucketArgs \<Rightarrow> BucketLocals \<Rightarrow> CollisionArrays \<Rightarrow> SymbolInstance \<Rightarrow>
   bool \<Rightarrow> bool \<Rightarrow> 'ci PState \<Rightarrow> PlacedCircles option \<times> bool \<times> bool \<times> 'ci PState" where
  "placeTextCircles E args locals collisionArrays' symbolInstance placeText offscreen' st =
     (case textCircles collisionArrays' of
        None \<Rightarrow> (None, placeText, offscreen', st)
      | Some textCircles' \<Rightarrow>
          let alongLineJustification =
                filter (\<lambda>i. i \<ge> 0)
                  [leftJustifiedTextSymbolIndex symbolInstance,
                   centerJustifiedTextSymbolIndex symbolInstance,
                   rightJustifiedTextSymbolIndex symbolInstance];
              placedSymbol = (placedSymbolArray (bucket st), first alongLineJustification);
              fontSize = evaluateSizeForFeature E (textSizeData (bucket st))
                           (partiallyEvaluatedTextSize locals) placedSymbol;
              (placedGlyphCircles, ci) =
                placeCollisionCircles E (collisionIndex (self st)) textCircles'
                  (text_allow_overlap (layout (bucket st))) (scale args) (textPixelRatio args)
                  placedSymbol (lineVertexArray (bucket st)) (glyphOffsetArray (bucket st))
                  fontSize (posMatrix args) (textLabelPlaneMatrix args)
                  (showCollisionBoxes args) (pitchWithMap locals)
                  (predicate (collisionGroup locals))
          in (Some placedGlyphCircles,
              text_allow_overlap (layout (bucket st)) \<or> length (circles placedGlyphCircles) > 0,
              offscreen' \<and> circles_offscreen placedGlyphCircles,
              st\<lparr> self := (self st)\<lparr> collisionIndex := ci \<rparr> \<rparr>))"

text \<open>The icon box: \<open>placedIconBoxes\<close>, \<open>placeIcon\<close>, \<open>offscreen\<close> and the state.\<close>

definition placeIconBox ::
  "'ci Externals \<Rightarrow> BucketArgs \<Rightarrow> BucketLocals \<Rightarrow> CollisionArrays \<Rightarrow> bool \<Rightarrow> 'ci PState \<Rightarrow>
   PlacedBoxes option \<times> bool \<times> bool \<times> 'ci PState" where
  "placeIconBox E args locals collisionArrays' offscreen' st =
     (case iconBox collisionArrays' of
        None \<Rightarrow> (None, False, offscreen', st)
      | Some iconBox' \<Rightarrow>
          let (placedIconBoxes, ci) =
                placeCollisionBox E (collisionIndex (self st)) iconBox'
                  (icon_allow_overlap (layout (bucket st))) (textPixelRatio args)
                  (posMatrix args) (predicate (collisionGroup locals))
          in (Some placedIconBoxes, length (box placedIconBoxes) > 0,
              offscreen' \<and> offscreen placedIconBoxes,
              st\<lparr> self := (self st)\<lparr> collisionIndex := ci \<rparr> \<rparr>))"

text \<open>The three insertions into the collision index, in the order of the code.\<close>

definition insertPlaced ::
  "'ci Externals \<Rightarrow> BucketLocals \<Rightarrow> SymbolBucket \<Rightarrow> bool \<Rightarrow> bool \<Rightarrow> PlacedBoxes option \<Rightarrow>
   PlacedBoxes option \<Rightarrow> PlacedCircles option \<Rightarrow> nat \<Rightarrow> nat \<Rightarrow> 'ci \<Rightarrow> 'ci" where
  "insertPlaced E locals b placeText placeIcon placedGlyphBoxes placedIconBoxes
     placedGlyphCircles textFeatureIndex' iconFeatureIndex' ci =
     (let ci1 = (case placedGlyphBoxes of
                   Some r \<Rightarrow>
                     if placeText
                     then insertCollisionBox E ci (box r) (text_ignore_placement (layout b))
                            (bucketInstanceId b) textFeatureIndex' (ID (collisionGroup locals))
                     else ci
                 | None \<Rightarrow> ci);
          ci2 = (case placedIconBoxes of
                   Some r \<Rightarrow>
                     if placeIcon
                     then insertCollisionBox E ci1 (box r) (icon_ignore_placement (layout b))
                            (bucketInstanceId b) iconFeatureIndex' (ID (collisionGroup locals))
                     else ci1
                 | None \<Rightarrow> ci1)
      in (case placedGlyphCircles of
            Some r \<Rightarrow>
              if placeText
              then insertCollisionCircles E ci2 (circles r) (text_ignore_placement (layout b))
                     (bucketInstanceId b) textFeatureIndex' (ID (collisionGroup locals))
              else ci2
          | None \<Rightarrow> ci2))"

text \<open>
  The resolution of one symbol instance that has not been seen, in a tile that is not
  holding for fade (the body of the loop from \<open>let placeText = false\<close> to the write of
  \<open>this.placements\<close>): the error raised, if any, and the state.
\<close>

definition resolveSymbolInstance ::
  "'ci Externals \<Rightarrow> BucketArgs \<Rightarrow> BucketLocals \<Rightarrow> nat \<Rightarrow> 'ci PState \<Rightarrow>
   error option \<times> 'ci PState" where
  "resolveSymbolInstance E args locals i st =
     (let symbolInstance = symbolInstances (bucket st) ! i
      in (case collisionArrays (bucket st) of
            None \<Rightarrow> (Some TypeError, st)
          | Some arrs \<Rightarrow>
              (if \<not> i < length arrs then (Some TypeError, st)
               else
                 let collisionArrays' = arrs ! i;
                     textFeatureIndex' =
                       (case textFeatureIndex collisionArrays' of Some n \<Rightarrow> n | None \<Rightarrow> 0)
                 in (case placeTextBox E args locals collisionArrays' symbolInstance st of
                       (Some e, _, _, st1) \<Rightarrow> (Some e, st1)
                     | (None, placedGlyphBoxes, placeText1, st1) \<Rightarrow>
                         let offscreen1 =
                               (case placedGlyphBoxes of None \<Rightarrow> False | Some r \<Rightarrow> offscreen r);
                             (placedGlyphCircles, placeText2, offscreen2, st2) =
                               placeTextCircles E args locals collisionArrays' symbolInstance
                                 placeText1 offscreen1 st1;
                             iconFeatureIndex' =
                               (case iconFeatureIndex collisionArrays' of Some n \<Rightarrow> n | None \<Rightarrow> 0);
                             (placedIconBoxes, placeIcon1, offscreen3, st3) =
                               placeIconBox E args locals collisionArrays' offscreen2 st2;
                             (placeText, placeIcon) =
                               coupleTextAndIcon (textOptional locals) (iconOptional locals)
                                 symbolInstance placeText2 placeIcon1;
                             st4 = st3\<lparr> self := (self st3)\<lparr> collisionIndex :=
                                     insertPlaced E locals (bucket st3) placeText placeIcon
                                       placedGlyphBoxes placedIconBoxes placedGlyphCircles
                                       textFeatureIndex' iconFeatureIndex'
                                       (collisionIndex (self st3)) \<rparr> \<rparr>
                         in if crossTileID symbolInstance = 0 \<or> bucketInstanceId (bucket st4) = 0
                            then (Some AssertionError, st4)
                            else
                              (None,
                               st4\<lparr> self := (self st4)\<lparr> placements :=
                                      assign (crossTileID symbolInstance)
                                        \<lparr> jp_text = placeText \<or> alwaysShowText locals,
                                          jp_icon = placeIcon \<or> alwaysShowIcon locals,
                                          skipFade = offscreen3 \<or> justReloaded (bucket st4) \<rparr>
                                        (placements (self st4)) \<rparr> \<rparr>)))))"

text \<open>
  One turn of the loop of \<open>placeLayerBucket\<close>, for the symbol instance at index \<open>i\<close>:
  the error, the state and \<open>seenCrossTileIDs\<close>.
\<close>

definition placeSymbolInstance ::
  "'ci Externals \<Rightarrow> BucketArgs \<Rightarrow> BucketLocals \<Rightarrow> nat \<Rightarrow> 'ci PState \<times> (nat \<rightharpoonup> bool) \<Rightarrow>
   error option \<times> 'ci PState \<times> (nat \<rightharpoonup> bool)" where
  "placeSymbolInstance E args locals i s =
     (case s of (st, seenCrossTileIDs) \<Rightarrow>
        let symbolInstance = symbolInstances (bucket st) ! i
        in if \<not> truthy (seenCrossTileIDs (crossTileID symbolInstance)) then
             (if holdingForFade args then
                (None,
                 st\<lparr> self := (self st)\<lparr> placements :=
                        assign (crossTileID symbolInstance)
                          \<lparr> jp_text = False, jp_icon = False, skipFade = False \<rparr>
                          (placements (self st)) \<rparr> \<rparr>,
                 seenCrossTileIDs)
              else
                (case resolveSymbolInstance E args locals i st of
                   (Some e, st') \<Rightarrow> (Some e, st', seenCrossTileIDs)
                 | (None, st') \<Rightarrow>
                     (None, st', seenCrossTileIDs(crossTileID symbolInstance \<mapsto> True))))
           else (None, st, seenCrossTileIDs))"

text \<open>The loop over the indices; it ends at the first error.\<close>

fun placeSymbolInstances ::
  "'ci Externals \<Rightarrow> BucketArgs \<Rightarrow> BucketLocals \<Rightarrow> nat list \<Rightarrow> 'ci PState \<times> (nat \<rightharpoonup> bool) \<Rightarrow>
   error option \<times> 'ci PState \<times> (nat \<rightharpoonup> bool)" where
  "placeSymbolInstances E args locals [] s = (None, s)"
| "placeSymbolInstances E args locals (i # is) s =
     (case placeSymbolInstance E args locals i s of
        (Some e, s') \<Rightarrow> (Some e, s')
      | (None, s') \<Rightarrow> placeSymbolInstances E args locals is s')"

text \<open>The constants \<open>placeLayerBucket\<close> computes before the loop.\<close>

definition bucketLocals ::
  "'ci Externals \<Rightarrow> SymbolBucket \<Rightarrow> Transform \<Rightarrow> CollisionGroup \<Rightarrow> BucketLocals" where
  "bucketLocals E b tr g =
     (let l = layout b in
      \<lparr> partiallyEvaluatedTextSize = evaluateSizeForZoom E (textSizeData b) (zoom tr),
        textOptional = text_optional l,
        iconOptional = icon_optional l,
        textAllowOverlap = text_allow_overlap l,
        iconAllowOverlap = icon_allow_overlap l,
        alwaysShowText =
          (text_allow_overlap l \<and> (icon_allow_overlap l \<or> \<not> hasIconData b \<or> icon_optional l)),
        alwaysShowIcon =
          (icon_allow_overlap l \<and> (text_allow_overlap l \<or> \<not> hasTextData b \<or> text_optional l)),
        collisionGroup = g,
        rotateWithMap = (text_rotation_alignment l = ''map''),
        pitchWithMap = (text_pitch_alignment l = ''map'') \<rparr>)"

text \<open>
  What \<open>placeLayerBucket\<close> does before its loop: the collision group of the bucket's
  source, the constants, and the collision arrays deserialized when the bucket has
  none yet.
\<close>

definition placeLayerBucket_start ::
  "'ci Externals \<Rightarrow> BucketArgs \<Rightarrow> 'ci PState \<Rightarrow> BucketLocals \<times> 'ci PState" where
  "placeLayerBucket_start E args st =
     (let (g, groups) = CollisionGroups_get (sourceID (bucket st)) (collisionGroups_of (self st));
          locals = bucketLocals E (bucket st) (transform (self st)) g;
          b1 = (case (collisionArrays (bucket st), collisionBoxArray args) of
                  (None, Some cba) \<Rightarrow>
                    (bucket st)\<lparr> collisionArrays :=
                                   Some (deserializeCollisionBoxes E (bucket st) cba) \<rparr>
                | _ \<Rightarrow> bucket st)
      in (locals, st\<lparr> self := (self st)\<lparr> collisionGroups_of := groups \<rparr>, bucket := b1 \<rparr>))"

text \<open>
  \<open>placeLayerBucket\<close>, on the bucket held by the state: the error raised, if any, the
  state and \<open>seenCrossTileIDs\<close> as the call leaves them.
\<close>

definition placeLayerBucket ::
  "'ci Externals \<Rightarrow> BucketArgs \<Rightarrow> 'ci PState \<times> (nat \<rightharpoonup> bool) \<Rightarrow>
   error option \<times> 'ci PState \<times> (nat \<rightharpoonup> bool)" where
  "placeLayerBucket E args s =
     (case s of (st, seenCrossTileIDs) \<Rightarrow>
        let (locals, st1) = placeLayerBucket_start E args st
        in (case placeSymbolInstances E args locals [0..<length (symbolInstances (bucket st1))]
                   (st1, seenCrossTileIDs) of
              (Some e, s') \<Rightarrow> (Some e, s')
            | (None, st', seen') \<Rightarrow>
                (None, st'\<lparr> bucket := (bucket st')\<lparr> justReloaded := False \<rparr> \<rparr>, seen')))"

subsection \<open>Concrete inputs\<close>

text \<open>
  A label (crossTileID 7) whose text is fading out at opacity 1/2 in the previous
  Placement, and a new Placement, of fade duration 100, that did not place it; the
  states of the label a tenth and a fifth of the fade duration later.
\<close>

definition fadingLabel :: "real \<Rightarrow> JointOpacityState" where
  "fadingLabel x = \<lparr> jo_text = \<lparr> opacity = x, placed = False \<rparr>,
                     jo_icon = \<lparr> opacity = 0, placed = False \<rparr> \<rparr>"

definition predecessor :: PlacementCore where
  "predecessor = \<lparr> placements = [], opacities = [(7, fadingLabel (1 / 2))], dynamicOffsets = [],
                   commitTime = 0, lastPlacementChangeTime = Some 0 \<rparr>"

definition emptyPlacement :: "unit Placement" where
  "emptyPlacement =
     \<lparr> placements = [], opacities = [], dynamicOffsets = [], commitTime = 0,
       lastPlacementChangeTime = None, transform = \<lparr> zoom = 0, angle = 0 \<rparr>,
       collisionIndex = (), stale = False, fadeDuration = 100,
       collisionGroups_of = new_CollisionGroups True, prevPlacement = None \<rparr>"

text \<open>
  Three requests for a collision group, two of them for sources named like members
  of \<open>Object.prototype\<close>.
\<close>

definition requestedSources :: "string list" where
  "requestedSources = [''constructor'', ''toString'', ''roads'']"

text \<open>A label with an icon and no text, as crossTileID 7.\<close>

definition iconOnlyLabel :: SymbolInstance where
  "iconOnlyLabel =
     \<lparr> crossTileID = 7,
       rightJustifiedTextSymbolIndex = - 1,
       centerJustifiedTextSymbolIndex = - 1,
       leftJustifiedTextSymbolIndex = - 1,
       verticalPlacedTextSymbolIndex = - 1,
       numHorizontalGlyphVertices = 0,
       numVerticalGlyphVertices = 0,
       numIconVertices = 4,
       layoutTextSize = 16,
       dynamicTextOffset = 0 \<rparr>"

text \<open>
  A collision index that places every box and every circle it is asked about, and
  whose state is the list of the calls made on it; with it, collaborators that align
  every anchor at the centre of the box.
\<close>

definition loggingIndex :: "string list Externals" where
  "loggingIndex =
     \<lparr> placeCollisionBox =
         (\<lambda>ci b allowOverlap ratio matrix p.
            (\<lparr> box = [x1 b, y1 b, x2 b, y2 b], offscreen = False \<rparr>,
             ci @ [''placeCollisionBox''])),
       placeCollisionCircles =
         (\<lambda>ci cs allowOverlap sc ratio symbol line glyphs size matrix labelPlane debug pitch p.
            (\<lparr> circles = cs, circles_offscreen = False \<rparr>,
             ci @ [''placeCollisionCircles''])),
       insertCollisionBox =
         (\<lambda>ci b ignorePlacement bucketId feature g. ci @ [''insertCollisionBox'']),
       insertCollisionCircles =
         (\<lambda>ci b ignorePlacement bucketId feature g. ci @ [''insertCollisionCircles'']),
       getAnchorJustification =
         (\<lambda>a. if a = ''right'' \<or> a = ''top-right'' \<or> a = ''bottom-right'' then ''right''
              else if a = ''left'' \<or> a = ''top-left'' \<or> a = ''bottom-left'' then ''left''
              else ''center''),
       getAnchorAlignment = (\<lambda>a. (1 / 2, 1 / 2)),
       getTextboxScale = (\<lambda>ratio size. 1),
       evaluateSizeForZoom = (\<lambda>sizeData z. 0),
       evaluateSizeForFeature = (\<lambda>sizeData size symbol. 16),
       rotate = (\<lambda>p a. p),
       deserializeCollisionBoxes = (\<lambda>b collisionBoxArray. []) \<rparr>"

definition unitBox :: SingleCollisionBox where
  "unitBox = \<lparr> x1 = 0, y1 = 0, x2 = 1, y2 = 1, anchorPointX = 0, anchorPointY = 0 \<rparr>"

definition plainLayout :: "nat option \<Rightarrow> Layout" where
  "plainLayout dynamicAnchors =
     \<lparr> text_optional = False, icon_optional = False,
       text_allow_overlap = False, icon_allow_overlap = False,
       text_ignore_placement = False, icon_ignore_placement = False,
       dynamic_text_anchor = dynamicAnchors,
       text_rotation_alignment = ''viewport'', text_pitch_alignment = ''viewport'' \<rparr>"

definition iconBucket :: SymbolBucket where
  "iconBucket =
     \<lparr> layout = plainLayout None,
       symbolInstances = [iconOnlyLabel],
       collisionArrays =
         Some [\<lparr> textBox = None, iconBox = Some unitBox, textCircles = None,
                 textFeatureIndex = None, iconFeatureIndex = Some 3 \<rparr>],
       placedSymbolArray = [],
       hasIconData = True, hasTextData = False,
       sourceID = ''places'', bucketInstanceId = 1, justReloaded = False,
       tilePixelRatio = 1, textSizeData = 0, lineVertexArray = 0, glyphOffsetArray = 0 \<rparr>"

definition sweepArgs :: BucketArgs where
  "sweepArgs =
     \<lparr> posMatrix = 0, textLabelPlaneMatrix = 0, iconLabelPlaneMatrix = 0, scale = 1,
       textPixelRatio = 1, showCollisionBoxes = False, holdingForFade = False,
       collisionBoxArray = None \<rparr>"

definition newPlacement :: "PlacementCore option \<Rightarrow> string list Placement" where
  "newPlacement prev =
     \<lparr> placements = [], opacities = [], dynamicOffsets = [], commitTime = 0,
       lastPlacementChangeTime = None, transform = \<lparr> zoom = 0, angle = 0 \<rparr>,
       collisionIndex = [], stale = False, fadeDuration = 300,
       collisionGroups_of = new_CollisionGroups True, prevPlacement = prev \<rparr>"

definition sweepStart :: "string list PState" where
  "sweepStart =
     \<lparr> self = newPlacement None, bucket = iconBucket, warnOnceHistory = [],
       arrays = [AUTO_DYNAMIC_PLACEMENT_elements] \<rparr>"

text \<open>
  The locals of \<open>placeLayerBucket\<close> for the bucket with the icon, and the state
  after its label is resolved: one query, one insertion, the icon placed.
\<close>

definition sweepLocals :: BucketLocals where
  "sweepLocals = bucketLocals loggingIndex iconBucket \<lparr> zoom = 0, angle = 0 \<rparr>
                   \<lparr> ID = Some 0, predicate = None \<rparr>"

definition iconPlaced :: "string list PState" where
  "iconPlaced =
     sweepStart\<lparr> self := (newPlacement None)
       \<lparr> collisionIndex := [''placeCollisionBox'', ''insertCollisionBox''],
         placements := [(7, \<lparr> jp_text = False, jp_icon = True, skipFade = False \<rparr>)] \<rparr> \<rparr>"

text \<open>
  A collision index that places nothing, and the state after the label with the icon
  is resolved on it: one query, no insertion, nothing placed.
\<close>

definition rejectingIndex :: "string list Externals" where
  "rejectingIndex =
     loggingIndex\<lparr> placeCollisionBox :=
       (\<lambda>ci b allowOverlap ratio matrix p.
          (\<lparr> box = [], offscreen = False \<rparr>, ci @ [''placeCollisionBox''])) \<rparr>"

definition iconRejected :: "string list PState" where
  "iconRejected =
     sweepStart\<lparr> self := (newPlacement None)
       \<lparr> collisionIndex := [''placeCollisionBox''],
         placements := [(7, \<lparr> jp_text = False, jp_icon = False, skipFade = False \<rparr>)] \<rparr> \<rparr>"

text \<open>
  A label with text in a layer whose \<open>dynamic-text-anchor\<close> is the array
  \<open>["top", "bottom"]\<close>, held at the address \<open>layoutAnchors\<close>, and placed at anchor
  \<open>a\<close> by the previous placement.
\<close>

definition layoutAnchors :: nat where
  "layoutAnchors = 1"

definition textLabel :: SymbolInstance where
  "textLabel =
     \<lparr> crossTileID = 7,
       rightJustifiedTextSymbolIndex = - 1,
       centerJustifiedTextSymbolIndex = 0,
       leftJustifiedTextSymbolIndex = - 1,
       verticalPlacedTextSymbolIndex = - 1,
       numHorizontalGlyphVertices = 4,
       numVerticalGlyphVertices = 0,
       numIconVertices = 0,
       layoutTextSize = 16,
       dynamicTextOffset = 0 \<rparr>"

definition textArrays :: CollisionArrays where
  "textArrays = \<lparr> textBox = Some unitBox, iconBox = None, textCircles = None,
                  textFeatureIndex = Some 5, iconFeatureIndex = None \<rparr>"

definition textBucket :: SymbolBucket where
  "textBucket =
     \<lparr> layout = plainLayout (Some layoutAnchors),
       symbolInstances = [textLabel],
       collisionArrays = Some [textArrays],
       placedSymbolArray = [\<lparr> placed_crossTileID = 0, hidden = 0 \<rparr>],
       hasIconData = False, hasTextData = True,
       sourceID = ''places'', bucketInstanceId = 1, justReloaded = False,
       tilePixelRatio = 1, textSizeData = 0, lineVertexArray = 0, glyphOffsetArray = 0 \<rparr>"

definition placedAt :: "string \<Rightarrow> string option \<Rightarrow> DynamicOffset" where
  "placedAt a prev = \<lparr> radialOffset = 0, width = 1, height = 1, anchor = a, textBoxScale = 1,
                       prevAnchor = prev \<rparr>"

definition previousAt :: "string \<Rightarrow> PlacementCore" where
  "previousAt a =
     \<lparr> placements = [(7, \<lparr> jp_text = True, jp_icon = False, skipFade = False \<rparr>)],
       opacities = [], dynamicOffsets = [(7, placedAt a None)],
       commitTime = 0, lastPlacementChangeTime = Some 0 \<rparr>"

definition anchorState :: "string \<Rightarrow> string list PState" where
  "anchorState a =
     \<lparr> self = newPlacement (Some (previousAt a)), bucket = textBucket, warnOnceHistory = [],
       arrays = [AUTO_DYNAMIC_PLACEMENT_elements, [''top'', ''bottom'']] \<rparr>"

definition textLocals :: BucketLocals where
  "textLocals = bucketLocals loggingIndex textBucket \<lparr> zoom = 0, angle = 0 \<rparr>
                  \<lparr> ID = Some 0, predicate = None \<rparr>"

text \<open>The state after the label was placed at anchor \<open>a\<close> in one attempt.\<close>

definition anchoredAt :: "string \<Rightarrow> string list list \<Rightarrow> string list PState" where
  "anchoredAt a store =
     \<lparr> self = (newPlacement (Some (previousAt a)))
         \<lparr> collisionIndex := [''placeCollisionBox''],
           dynamicOffsets := [(7, placedAt a (Some a))] \<rparr>,
       bucket = textBucket\<lparr> placedSymbolArray := [\<lparr> placed_crossTileID = 7, hidden = 0 \<rparr>] \<rparr>,
       warnOnceHistory = [],
       arrays = store \<rparr>"

section \<open>Properties\<close>

subsection \<open>Opacity\<close>

text \<open>
  C1. Whatever the previous state (or none), the increment, the placed flag and
  skipFade, the opacity of a new OpacityState lies in [0, 1]; and for every
  OpacityState \<open>isHidden\<close> holds exactly when its opacity is 0 and it is not placed.
\<close>

theorem OpacityState_transition:
  "0 \<le> opacity (new_OpacityState prevState increment p sf) \<and>
   opacity (new_OpacityState prevState increment p sf) \<le> 1 \<and>
   (isHidden s \<longleftrightarrow> (opacity s = 0 \<and> \<not> placed s))"
  by (simp add: new_OpacityState_def isHidden_def split: option.split)

subsection \<open>Packing\<close>

lemma lane_of:
  fixes L q r m :: int
  assumes "0 \<le> L" "L < 256" "0 \<le> r" "r < m" "v = (q * 256 + L) * m + r"
  shows "v div m mod 256 = L"
proof -
  have "v div m = q * 256 + L"
    using assms by (intro int_div_pos_eq[where r = r]) (simp_all add: algebra_simps)
  moreover have "(q * 256 + L) mod 256 = L"
    using assms by simp
  ultimately show ?thesis by simp
qed

lemma lanes:
  fixes L :: int
  assumes "0 \<le> L" "L < 256"
  defines "v \<equiv> L * 16777216 + L * 65536 + L * 256 + L"
  shows "0 \<le> v" "v < 4294967296"
    "v div 16777216 mod 256 = L" "v div 65536 mod 256 = L"
    "v div 256 mod 256 = L" "v div 1 mod 256 = L"
proof -
  show "0 \<le> v" "v < 4294967296" using assms by simp_all
  show "v div 16777216 mod 256 = L"
    using assms by (intro lane_of[where q = 0 and r = "L * 65536 + L * 256 + L"]) simp_all
  show "v div 65536 mod 256 = L"
    using assms by (intro lane_of[where q = L and r = "L * 256 + L"]) simp_all
  show "v div 256 mod 256 = L"
    using assms by (intro lane_of[where q = "L * 256 + L" and r = L]) simp_all
  show "v div 1 mod 256 = L"
    using assms by (intro lane_of[where q = "L * 65536 + L * 256 + L" and r = 0]) simp_all
qed

lemma round_ties_even_int: "round_ties_even (of_int m) = m"
  by (simp add: round_ties_even_def)

lemma round_ties_even_le:
  assumes "y \<le> of_int m"
  shows "round_ties_even y \<le> m"
proof -
  have f: "\<lfloor>y\<rfloor> \<le> m" using assms by (simp add: floor_le_iff)
  have "\<lfloor>y\<rfloor> + 1 \<le> m" if "1 / 2 \<le> y - of_int \<lfloor>y\<rfloor>"
  proof -
    from that assms have "of_int \<lfloor>y\<rfloor> < (of_int m :: real)" by linarith
    then show ?thesis by simp
  qed
  with f show ?thesis
    unfolding round_ties_even_def Let_def by (simp add: not_less)
qed

lemma round_ties_even_ge:
  assumes "of_int m \<le> y"
  shows "m \<le> round_ties_even y"
proof -
  have "m \<le> \<lfloor>y\<rfloor>" using assms by (simp add: le_floor_iff)
  then show ?thesis
    unfolding round_ties_even_def Let_def by simp
qed

lemma binary64_exponent_upper:
  assumes "\<bar>x\<bar> < 2 powi (e + 1)" "emin \<le> e" "e \<le> emax"
  shows "binary64_exponent x \<le> e"
proof (cases "find (\<lambda>e. \<bar>x\<bar> < 2 powi (e + 1)) [emin..emax]")
  case None
  then have "\<not> \<bar>x\<bar> < 2 powi (e + 1)" using assms(2,3) by (auto simp: find_None_iff)
  with assms(1) show ?thesis by simp
next
  case (Some e')
  then obtain i where i: "i < length [emin..emax]" "e' = [emin..emax] ! i"
    "\<forall>j<i. \<not> \<bar>x\<bar> < 2 powi ([emin..emax] ! j + 1)"
    by (auto simp: find_Some_iff)
  have e': "e' = emin + int i" using i(1,2) by simp
  have "e' \<le> e"
  proof (rule ccontr)
    assume "\<not> e' \<le> e"
    then have j: "nat (e - emin) < i" using e' assms(2) by linarith
    have "[emin..emax] ! nat (e - emin) = e" using assms(2,3) by simp
    with i(3) j assms(1) show False by auto
  qed
  with Some show ?thesis by (simp add: binary64_exponent_def)
qed

text \<open>The exponent of a number is that of the binade it lies in.\<close>

lemma binary64_exponent_eq:
  assumes "2 powi e \<le> \<bar>x\<bar>" "\<bar>x\<bar> < 2 powi (e + 1)" "emin \<le> e" "e \<le> emax"
  shows "binary64_exponent x = e"
proof (rule antisym)
  show "binary64_exponent x \<le> e" using assms by (intro binary64_exponent_upper)
  show "e \<le> binary64_exponent x"
  proof (rule ccontr)
    assume "\<not> e \<le> binary64_exponent x"
    then have lt: "binary64_exponent x + 1 \<le> e" by simp
    obtain e' where f: "find (\<lambda>e. \<bar>x\<bar> < 2 powi (e + 1)) [emin..emax] = Some e'"
      using lt assms(4) by (cases "find (\<lambda>e. \<bar>x\<bar> < 2 powi (e + 1)) [emin..emax]")
        (auto simp: binary64_exponent_def)
    then have "\<bar>x\<bar> < 2 powi (e' + 1)" by (auto simp: find_Some_iff)
    moreover have "e' = binary64_exponent x" using f by (simp add: binary64_exponent_def)
    moreover have "(2::real) powi (binary64_exponent x + 1) \<le> 2 powi e"
      using lt by (intro power_int_increasing) simp_all
    ultimately show False using assms(1) by simp
  qed
qed

text \<open>Below \<open>2 ^ 53\<close> the quantum is 1 or a negative power of 2, so it divides the integers.\<close>

lemma quantum_divides:
  assumes "\<bar>x\<bar> < 2 ^ 53"
  obtains k :: nat where "2 powi (binary64_exponent x - 52) = (1 / 2 ^ k :: real)"
proof -
  have "binary64_exponent x \<le> 52"
    using assms by (intro binary64_exponent_upper) (simp_all add: emin_def emax_def)
  then have "(2::real) powi (binary64_exponent x - 52) = 1 / 2 ^ nat (52 - binary64_exponent x)"
    by (cases "binary64_exponent x = 52") (simp_all add: power_int_def power_inverse field_simps)
  then show ?thesis by (rule that)
qed

text \<open>Rounding does not cross an integer.\<close>

lemma binary64_le_int:
  assumes "\<bar>x\<bar> < 2 ^ 53" "x \<le> of_int n"
  shows "binary64 x \<le> of_int n"
proof -
  from quantum_divides[OF assms(1)] obtain k :: nat
    where q: "2 powi (binary64_exponent x - 52) = (1 / 2 ^ k :: real)" by blast
  have "x * 2 ^ k \<le> of_int (n * 2 ^ k)" using assms(2) by simp
  from round_ties_even_le[OF this]
  have "of_int (round_ties_even (x * 2 ^ k)) \<le> (of_int (n * 2 ^ k) :: real)"
    by (simp only: of_int_le_iff)
  then have "of_int (round_ties_even (x * 2 ^ k)) / 2 ^ k \<le> (of_int n :: real)"
    by (simp add: field_simps)
  then show ?thesis by (simp add: binary64_def q)
qed

lemma binary64_ge_int:
  assumes "\<bar>x\<bar> < 2 ^ 53" "of_int n \<le> x"
  shows "of_int n \<le> binary64 x"
proof -
  from quantum_divides[OF assms(1)] obtain k :: nat
    where q: "2 powi (binary64_exponent x - 52) = (1 / 2 ^ k :: real)" by blast
  have "of_int (n * 2 ^ k) \<le> x * 2 ^ k" using assms(2) by simp
  from round_ties_even_ge[OF this]
  have "(of_int (n * 2 ^ k) :: real) \<le> of_int (round_ties_even (x * 2 ^ k))"
    by (simp only: of_int_le_iff)
  then have "(of_int n :: real) \<le> of_int (round_ties_even (x * 2 ^ k)) / 2 ^ k"
    by (simp add: field_simps)
  then show ?thesis by (simp add: binary64_def q)
qed

lemma binary64_int:
  assumes "\<bar>n\<bar> < 2 ^ 53"
  shows "binary64 (of_int n) = of_int n"
proof (rule antisym)
  have a: "\<bar>of_int n :: real\<bar> < 2 ^ 53"
    using assms by (metis of_int_abs of_int_less_numeral_power_cancel_iff)
  show "binary64 (of_int n) \<le> of_int n" using a by (intro binary64_le_int) simp_all
  show "of_int n \<le> binary64 (of_int n)" using a by (intro binary64_ge_int) simp_all
qed

text \<open>
  The opacity bits are a number from 0 to 127, and they lie between the floor and
  the ceiling of the exact product.
\<close>

lemma floor_bits:
  assumes "0 \<le> x" "x \<le> 1"
  shows "0 \<le> \<lfloor>binary64_times x 127\<rfloor>" "\<lfloor>binary64_times x 127\<rfloor> \<le> 127"
    "\<lfloor>x * 127\<rfloor> \<le> \<lfloor>binary64_times x 127\<rfloor>" "\<lfloor>binary64_times x 127\<rfloor> \<le> \<lceil>x * 127\<rceil>"
proof -
  have r: "\<bar>x * 127\<bar> < 2 ^ 53" using assms by simp
  have "of_int 0 \<le> binary64 (x * 127)" using assms by (intro binary64_ge_int[OF r]) simp
  then show "0 \<le> \<lfloor>binary64_times x 127\<rfloor>" by (simp add: binary64_times_def)
  have "binary64 (x * 127) \<le> of_int 127" using assms by (intro binary64_le_int[OF r]) simp
  then show "\<lfloor>binary64_times x 127\<rfloor> \<le> 127" by (simp add: binary64_times_def floor_le_iff)
  have "of_int \<lfloor>x * 127\<rfloor> \<le> binary64 (x * 127)" by (intro binary64_ge_int[OF r]) simp
  then show "\<lfloor>x * 127\<rfloor> \<le> \<lfloor>binary64_times x 127\<rfloor>"
    by (simp add: binary64_times_def le_floor_iff)
  have "binary64 (x * 127) \<le> of_int \<lceil>x * 127\<rceil>" by (intro binary64_le_int[OF r]) simp
  then show "\<lfloor>binary64_times x 127\<rfloor> \<le> \<lceil>x * 127\<rceil>"
    by (simp add: binary64_times_def floor_le_iff)
qed

lemma times_0_and_1: "binary64_times 0 127 = 0" "binary64_times 1 127 = 127"
  using binary64_int[of 0] binary64_int[of 127] by (simp_all add: binary64_times_def)

lemma times_half: "binary64_times (1 / 2) 127 = 127 / 2"
proof -
  have e: "binary64_exponent (127 / 2) = 5"
    by (rule binary64_exponent_eq) (simp_all add: emin_def emax_def)
  have "round_ties_even (127 / 2 * 2 ^ 47) = 127 * 2 ^ 46"
    using round_ties_even_int[of "127 * 2 ^ 46"] by simp
  then show ?thesis by (simp add: binary64_times_def binary64_def e power_int_minus_divide)
qed

text \<open>
  The binary64 number nearest to 1/127 is \<open>4539061041759240 / 2 ^ 59\<close>. Its exact
  product with 127 is \<open>1 - 2 ^ (- 56)\<close>, which rounds to 1.
\<close>

lemma times_nearest_127th: "binary64_times (4539061041759240 / 2 ^ 59) 127 = 1"
proof -
  have x: "4539061041759240 / 2 ^ 59 * 127 = (72057594037927935 / 72057594037927936 :: real)"
    by simp
  have e: "binary64_exponent (72057594037927935 / 72057594037927936) = - 1"
    by (rule binary64_exponent_eq) (simp_all add: emin_def emax_def)
  have r: "round_ties_even (72057594037927935 / 8) = 9007199254740992"
    by (simp add: round_ties_even_def Let_def floor_eq_iff)
  show ?thesis
    unfolding binary64_times_def x binary64_def e Let_def by (simp add: r)
qed

lemma lane_split:
  fixes x b t :: int
  assumes "x mod 256 = 2 * b + t" "0 \<le> t" "t \<le> 1" "0 \<le> b" "b \<le> 127"
  shows "x div 2 mod 128 = b" "x mod 2 = t"
proof -
  define q where "q = x div 256"
  have x: "x = 256 * q + (2 * b + t)"
    using assms(1) mult_div_mod_eq[of 256 x] by (simp add: q_def)
  have "x div 2 = 128 * q + b"
    using assms x by (intro int_div_pos_eq[where r = t]) simp_all
  moreover have "(128 * q + b) mod 128 = b"
    using assms by (intro int_mod_pos_eq[where q = q]) simp_all
  ultimately show "x div 2 mod 128 = b" by simp
  show "x mod 2 = t"
    using assms x by (intro int_mod_pos_eq[where q = "128 * q + b"]) simp_all
qed

lemma packOpacity_eq:
  assumes "0 \<le> opacity s" "opacity s \<le> 1"
  defines "L \<equiv> 2 * \<lfloor>binary64_times (opacity s) 127\<rfloor> + (if placed s then 1 else 0)"
  shows "packOpacity s = L * 16777216 + L * 65536 + L * 256 + L"
proof -
  consider (zero) "opacity s = 0 \<and> \<not> placed s" | (one) "opacity s = 1 \<and> placed s"
    | (other) "\<not> (opacity s = 0 \<and> \<not> placed s)" "\<not> (opacity s = 1 \<and> placed s)"
    by blast
  then show ?thesis
  proof cases
    case zero then show ?thesis by (simp add: packOpacity_def L_def times_0_and_1)
  next
    case one then show ?thesis by (simp add: packOpacity_def L_def times_0_and_1)
  next
    case other then show ?thesis
      by (simp add: packOpacity_def L_def Let_def times_0_and_1 shift25_def shift24_def
          shift17_def shift16_def shift9_def shift8_def shift1_def algebra_simps)
  qed
qed

text \<open>
  The opacity bits are those of the product as binary64 arithmetic rounds it. At
  the binary64 number nearest to 1/127, placed, they are 1 where the exact product
  has the floor 0: the value is 0x03030303.
\<close>

lemma packOpacity_nearest_127th:
  "packOpacity \<lparr>opacity = 4539061041759240 / 2 ^ 59, placed = True\<rparr> = 50529027"
  "\<lfloor>4539061041759240 / 2 ^ 59 * (127::real)\<rfloor> = 0"
proof -
  define d :: real where "d = 4539061041759240 / 2 ^ 59"
  have t: "binary64_times d 127 = 1"
    unfolding d_def by (rule times_nearest_127th)
  have "d \<noteq> 1" by (simp add: d_def)
  then have "packOpacity \<lparr>opacity = d, placed = True\<rparr> = 50529027"
    by (simp add: packOpacity_def Let_def t shift25_def shift24_def shift17_def shift16_def
          shift9_def shift8_def shift1_def)
  then show "packOpacity \<lparr>opacity = 4539061041759240 / 2 ^ 59, placed = True\<rparr> = 50529027"
    unfolding d_def .
  show "\<lfloor>4539061041759240 / 2 ^ 59 * (127::real)\<rfloor> = 0"
    by (simp add: floor_eq_iff)
qed

text \<open>
  C8. \<open>packOpacity\<close> gives 0 for opacity 0, not placed, and 4294967295 for opacity 1,
  placed. For every state with opacity in [0, 1] the value is a 32-bit unsigned
  number each of whose four 8-bit lanes \<open>k\<close> holds the opacity bits, the floor of the
  product \<open>opacity * 127\<close> as the code computes it, a number from 0 to 127, in its upper
  seven bits (from bit \<open>8k + 1\<close>: 25, 17, 9, 1) and the placed bit in its lowest bit
  (bit \<open>8k\<close>: 24, 16, 8, 0).
\<close>

theorem packOpacity_layout:
  "packOpacity \<lparr>opacity = 0, placed = False\<rparr> = 0 \<and>
   packOpacity \<lparr>opacity = 1, placed = True\<rparr> = 4294967295 \<and>
   (0 \<le> opacity s \<and> opacity s \<le> 1 \<longrightarrow>
      0 \<le> packOpacity s \<and> packOpacity s < 2 ^ 32 \<and>
      0 \<le> \<lfloor>binary64_times (opacity s) 127\<rfloor> \<and> \<lfloor>binary64_times (opacity s) 127\<rfloor> \<le> 127 \<and>
      (\<forall>k<4. packOpacity s div 2 ^ (8 * k + 1) mod 128 = \<lfloor>binary64_times (opacity s) 127\<rfloor> \<and>
              packOpacity s div 2 ^ (8 * k) mod 2 = (if placed s then 1 else 0)))"
proof (intro conjI impI)
  show "packOpacity \<lparr>opacity = 0, placed = False\<rparr> = 0"
    by (simp add: packOpacity_def)
  show "packOpacity \<lparr>opacity = 1, placed = True\<rparr> = 4294967295"
    by (simp add: packOpacity_def)
next
  assume range: "0 \<le> opacity s \<and> opacity s \<le> 1"
  define b where "b = \<lfloor>binary64_times (opacity s) 127\<rfloor>"
  define t :: int where "t = (if placed s then 1 else 0)"
  define L where "L = 2 * b + t"
  define v where "v = packOpacity s"
  have b: "0 \<le> b" "b \<le> 127" using range floor_bits(1,2)[of "opacity s"] by (simp_all add: b_def)
  then show "0 \<le> \<lfloor>binary64_times (opacity s) 127\<rfloor>" "\<lfloor>binary64_times (opacity s) 127\<rfloor> \<le> 127"
    by (simp_all add: b_def)
  have t: "0 \<le> t" "t \<le> 1" by (simp_all add: t_def)
  have L: "0 \<le> L" "L < 256" using b t by (simp_all add: L_def)
  have v: "v = L * 16777216 + L * 65536 + L * 256 + L"
    using packOpacity_eq[of s] range by (simp add: v_def L_def b_def t_def)
  note ln = lanes[OF L, folded v]
  show "0 \<le> packOpacity s" "packOpacity s < 2 ^ 32"
    using ln(1,2) by (simp_all add: v_def)
  have lane: "v div 2 ^ (8 * k) mod 256 = 2 * b + t" if "k < 4" for k :: nat
  proof -
    from that consider "k = 0" | "k = 1" | "k = 2" | "k = 3" by linarith
    then show ?thesis using ln(3-6) by cases (simp_all add: L_def)
  qed
  show "\<forall>k<4. packOpacity s div 2 ^ (8 * k + 1) mod 128 = \<lfloor>binary64_times (opacity s) 127\<rfloor> \<and>
              packOpacity s div 2 ^ (8 * k) mod 2 = (if placed s then 1 else 0)"
  proof (intro allI impI)
    fix k :: nat assume k: "k < 4"
    have "v div (2 ^ (8 * k) * 2) = v div 2 ^ (8 * k) div 2"
      by (rule zdiv_zmult2_eq) simp
    then have "v div 2 ^ (8 * k + 1) = v div 2 ^ (8 * k) div 2"
      by (simp add: mult.commute)
    with lane_split[OF lane[OF k] t b]
    show "packOpacity s div 2 ^ (8 * k + 1) mod 128 = \<lfloor>binary64_times (opacity s) 127\<rfloor> \<and>
          packOpacity s div 2 ^ (8 * k) mod 2 = (if placed s then 1 else 0)"
      by (simp add: v_def b_def t_def)
  qed
qed

text \<open>At opacity 1/2, placed: 63 and 1 in each lane, the value 0x7F7F7F7F.\<close>

theorem packOpacity_layout_witness:
  "packOpacity \<lparr>opacity = 1 / 2, placed = True\<rparr> = 2139062143 \<and>
   2139062143 div 2 ^ 25 mod 128 = (63::int) \<and> 2139062143 div 2 ^ 24 mod 2 = (1::int) \<and>
   2139062143 div 2 ^ 17 mod 128 = (63::int) \<and> 2139062143 div 2 ^ 16 mod 2 = (1::int) \<and>
   2139062143 div 2 ^ 9 mod 128 = (63::int) \<and> 2139062143 div 2 ^ 8 mod 2 = (1::int) \<and>
   2139062143 div 2 ^ 1 mod 128 = (63::int) \<and> 2139062143 div 2 ^ 0 mod 2 = (1::int)"
proof -
  define s where "s = \<lparr>opacity = 1 / 2, placed = True\<rparr>"
  have fl: "\<lfloor>binary64_times (1 / 2) 127\<rfloor> = 63" by (simp add: times_half floor_eq_iff)
  have v: "packOpacity s = 2139062143"
    by (simp add: s_def packOpacity_def Let_def fl shift25_def shift24_def shift17_def
          shift16_def shift9_def shift8_def shift1_def)
  have r: "0 \<le> opacity s \<and> opacity s \<le> 1" by (simp add: s_def)
  from packOpacity_layout[of s] r
  have all: "\<forall>k<4. packOpacity s div 2 ^ (8 * k + 1) mod 128 = \<lfloor>binary64_times (opacity s) 127\<rfloor> \<and>
              packOpacity s div 2 ^ (8 * k) mod 2 = (if placed s then 1 else 0)"
    by blast
  have "(0::nat) < 4" "(1::nat) < 4" "(2::nat) < 4" "(3::nat) < 4" by simp_all
  from all[rule_format, OF this(1)] all[rule_format, OF this(2)]
       all[rule_format, OF this(3)] all[rule_format, OF this(4)] v
  show ?thesis
    by (simp add: s_def fl)
qed

subsection \<open>commit\<close>

lemma lookup_assign: "lookup (assign k v d) = (lookup d)(k \<mapsto> v)"
  by (induction d) (auto simp: lookup_def fun_eq_iff)

lemma lookup_Nil: "lookup [] c = None"
  by (simp add: lookup_def)

lemma lookup_Cons: "lookup ((k, v) # d) c = (if c = k then Some v else lookup d c)"
  by (simp add: lookup_def)

lemma lookup_assign_at: "lookup (assign k v d) c = (if c = k then Some v else lookup d c)"
  by (simp add: lookup_assign)

lemma in_dict_keys: "c \<in> set (dict_keys d) \<longleftrightarrow> lookup d c \<noteq> None"
  by (simp add: dict_keys_def lookup_def map_of_eq_None_iff)

lemma fold_commit_placed:
  "lookup (fst (fold (commit_placed P Q inc) ks acc)) c =
     (case lookup P c of
        Some jp \<Rightarrow>
          if c \<in> set ks then
            Some (case lookup Q c of
                    Some po \<Rightarrow> new_JointOpacityState (Some po) inc (jp_text jp) (jp_icon jp) None
                  | None \<Rightarrow> new_JointOpacityState None inc (jp_text jp) (jp_icon jp)
                             (Some (skipFade jp)))
          else lookup (fst acc) c
      | None \<Rightarrow> lookup (fst acc) c)"
proof (induction ks arbitrary: acc)
  case Nil
  then show ?case by (simp split: option.split)
next
  case (Cons k ks)
  obtain ops ch where acc: "acc = (ops, ch)" by (cases acc)
  show ?case
    unfolding fold_simps Cons.IH
    by (auto simp: acc commit_placed_def lookup_assign_at split: option.splits)
qed

text \<open>The entry the second loop computes for a label of the previous placement.\<close>

lemma fold_commit_faded:
  "lookup (fst (fold (commit_faded Q inc) ks acc)) c =
     (case lookup (fst acc) c of
        Some j \<Rightarrow> Some j
      | None \<Rightarrow>
          (case lookup Q c of
             Some po \<Rightarrow>
               if c \<in> set ks \<and> \<not> joint_isHidden (new_JointOpacityState (Some po) inc False False None)
               then Some (new_JointOpacityState (Some po) inc False False None) else None
           | None \<Rightarrow> None))"
proof (induction ks arbitrary: acc)
  case Nil
  then show ?case by (simp split: option.split)
next
  case (Cons k ks)
  obtain ops ch where acc: "acc = (ops, ch)" by (cases acc)
  show ?case
    unfolding fold_simps Cons.IH
    by (auto simp: acc commit_faded_def lookup_assign_at Let_def split: option.splits)
qed

lemma commit_opacities:
  "opacities (snd (commit prev now p)) =
     fst (fold (commit_faded (case prev of Some q \<Rightarrow> opacities q | None \<Rightarrow> [])
                  (commit_increment prev (fadeDuration p) now))
            (dict_keys (case prev of Some q \<Rightarrow> opacities q | None \<Rightarrow> []))
            (fold (commit_placed (placements p) (case prev of Some q \<Rightarrow> opacities q | None \<Rightarrow> [])
                     (commit_increment prev (fadeDuration p) now))
               (dict_keys (placements p)) (opacities p, False)))"
  by (simp add: commit_def Let_def)

lemma commit_frame:
  "placements (snd (commit prev now p)) = placements p"
  "fadeDuration (snd (commit prev now p)) = fadeDuration p"
  by (simp_all add: commit_def Let_def)

lemma commit_lookup:
  "lookup (opacities (snd (commit prev now p))) c =
     (case lookup (placements p) c of
        Some jp \<Rightarrow>
          Some (case lookup (case prev of Some q \<Rightarrow> opacities q | None \<Rightarrow> []) c of
                  Some po \<Rightarrow>
                    new_JointOpacityState (Some po) (commit_increment prev (fadeDuration p) now)
                      (jp_text jp) (jp_icon jp) None
                | None \<Rightarrow>
                    new_JointOpacityState None (commit_increment prev (fadeDuration p) now)
                      (jp_text jp) (jp_icon jp) (Some (skipFade jp)))
      | None \<Rightarrow>
          (case lookup (opacities p) c of
             Some j \<Rightarrow> Some j
           | None \<Rightarrow>
               (case lookup (case prev of Some q \<Rightarrow> opacities q | None \<Rightarrow> []) c of
                  Some po \<Rightarrow>
                    if joint_isHidden (new_JointOpacityState (Some po)
                         (commit_increment prev (fadeDuration p) now) False False None)
                    then None
                    else Some (new_JointOpacityState (Some po)
                                 (commit_increment prev (fadeDuration p) now) False False None)
                | None \<Rightarrow> None)))"
  unfolding commit_opacities fold_commit_faded fold_commit_placed
  by (auto simp: in_dict_keys split: option.splits)

text \<open>
  C3. A second \<open>commit\<close> with the same previous Placement and the same \<open>now\<close> leaves
  every entry of \<open>opacities\<close> as the first call left it (whether or not the calls
  fail the assertion on the predecessor's \<open>lastPlacementChangeTime\<close>).
\<close>

theorem commit_idempotent:
  "lookup (opacities (snd (commit prev now (snd (commit prev now p))))) c =
   lookup (opacities (snd (commit prev now p))) c"
  unfolding commit_lookup[of prev now "snd (commit prev now p)"] commit_frame
  by (simp add: commit_lookup split: option.splits)

text \<open>
  C5, as the code has it. For a crossTileID that the previous Placement's opacities
  hold and that is not in this Placement's placements: when \<open>this.opacities\<close> holds no
  entry for it as \<open>commit\<close> is called (so on every new Placement), \<open>commit\<close> computes
  the next JointOpacityState from the previous one with both targets false and the
  increment of the call, and keeps it exactly when it is not hidden; when
  \<open>this.opacities\<close> holds an entry already, that entry stays.
\<close>

theorem commit_fades_absent:
  assumes "lookup (opacities prev) c = Some po"
    and "lookup (placements p) c = None"
  shows "lookup (opacities (snd (commit (Some prev) now p))) c =
     (case lookup (opacities p) c of
        Some j \<Rightarrow> Some j
      | None \<Rightarrow>
          (let j = new_JointOpacityState (Some po)
                     (commit_increment (Some prev) (fadeDuration p) now) False False None
           in if joint_isHidden j then None else Some j))"
  using assms by (simp add: commit_lookup split: option.splits)

lemma example_lookups:
  "lookup (opacities predecessor) 7 = Some (fadingLabel (1 / 2))"
  "lookup (placements emptyPlacement) 7 = None"
  "lookup (opacities emptyPlacement) 7 = None"
  "fadeDuration emptyPlacement = 100"
  by (simp_all add: predecessor_def emptyPlacement_def lookup_def)

lemma example_fading:
  "new_JointOpacityState (Some (fadingLabel (1 / 2))) (commit_increment (Some predecessor) 100 10)
     False False None = fadingLabel (2 / 5)"
  "new_JointOpacityState (Some (fadingLabel (1 / 2))) (commit_increment (Some predecessor) 100 20)
     False False None = fadingLabel (3 / 10)"
  "\<not> joint_isHidden (fadingLabel (2 / 5))"
  "\<not> joint_isHidden (fadingLabel (3 / 10))"
  by (simp_all add: new_JointOpacityState_def new_OpacityState_def fadingLabel_def
        commit_increment_def predecessor_def joint_isHidden_def isHidden_def)

text \<open>
  On a new Placement the label keeps fading: a tenth of the fade duration after the
  predecessor's commit its text has opacity 2/5.
\<close>

theorem commit_fades_absent_witness:
  "lookup (opacities (snd (commit (Some predecessor) 10 emptyPlacement))) 7 =
     Some (fadingLabel (2 / 5))"
  using commit_fades_absent[of predecessor 7 "fadingLabel (1 / 2)" emptyPlacement 10]
  by (simp add: example_lookups example_fading)

text \<open>
  The claim as it is written fails when \<open>commit\<close> is called on a Placement whose
  \<open>opacities\<close> hold an entry for the label, as they do after a first \<open>commit\<close>: the
  previous state is in the predecessor, the label is not in \<open>placements\<close>, and a
  second \<open>commit\<close> at time 20 leaves the entry of the first one, of opacity 2/5, where
  the state computed from the previous one has opacity 3/10 and is not hidden.
\<close>

theorem commit_fades_absent_counterexample:
  "lookup (opacities predecessor) 7 = Some (fadingLabel (1 / 2)) \<and>
   lookup (placements (snd (commit (Some predecessor) 10 emptyPlacement))) 7 = None \<and>
   new_JointOpacityState (Some (fadingLabel (1 / 2)))
     (commit_increment (Some predecessor)
        (fadeDuration (snd (commit (Some predecessor) 10 emptyPlacement))) 20)
     False False None = fadingLabel (3 / 10) \<and>
   \<not> joint_isHidden (fadingLabel (3 / 10)) \<and>
   lookup (opacities (snd (commit (Some predecessor) 20
     (snd (commit (Some predecessor) 10 emptyPlacement))))) 7 = Some (fadingLabel (2 / 5)) \<and>
   fadingLabel (2 / 5) \<noteq> fadingLabel (3 / 10)"
proof -
  have first: "lookup (opacities (snd (commit (Some predecessor) 10 emptyPlacement))) 7 =
     Some (fadingLabel (2 / 5))"
    by (simp add: commit_lookup example_lookups example_fading)
  have "lookup (opacities (snd (commit (Some predecessor) 20
     (snd (commit (Some predecessor) 10 emptyPlacement))))) 7 = Some (fadingLabel (2 / 5))"
    unfolding commit_lookup[of "Some predecessor" 20] commit_frame
    by (simp add: first example_lookups)
  moreover have "fadingLabel (2 / 5) \<noteq> fadingLabel (3 / 10)"
    by (simp add: fadingLabel_def)
  ultimately show ?thesis
    by (simp add: commit_frame example_lookups example_fading)
qed

subsection \<open>CollisionGroups\<close>

lemma groups_ok_new: "groups_ok (new_CollisionGroups False)"
  by (simp add: groups_ok_def new_CollisionGroups_def)

lemma get_inherited:
  assumes "groups_ok cg" "s \<in> set Object_prototype_names"
  shows "CollisionGroups_get s cg = (inherited_member, cg)"
proof -
  have "collisionGroups cg s = None"
    using assms unfolding groups_ok_def by (cases "collisionGroups cg s") auto
  then show ?thesis
    using assms by (simp add: CollisionGroups_get_def collisionGroups_at_def groups_ok_def)
qed

lemma get_groups_ok:
  assumes "groups_ok cg" "s \<notin> set Object_prototype_names" "CollisionGroups_get s cg = (g, cg')"
  shows "groups_ok cg'" "collisionGroups cg' s = Some g"
    "collisionGroups cg \<subseteq>\<^sub>m collisionGroups cg'"
proof -
  show "collisionGroups cg' s = Some g"
    using assms
    by (auto simp: CollisionGroups_get_def collisionGroups_at_def groups_ok_def Let_def
          split: option.splits)
  show "collisionGroups cg \<subseteq>\<^sub>m collisionGroups cg'"
    using assms
    by (auto simp: CollisionGroups_get_def collisionGroups_at_def groups_ok_def Let_def map_le_def
          split: option.splits)
  show "groups_ok cg'"
  proof (cases "collisionGroups cg s")
    case (Some h)
    then show ?thesis
      using assms by (simp add: CollisionGroups_get_def collisionGroups_at_def groups_ok_def)
  next
    case None
    then have cg': "cg' = cg\<lparr> maxGroupID := maxGroupID cg + 1,
         collisionGroups := (collisionGroups cg)(s \<mapsto> g) \<rparr>"
      and g: "g = \<lparr> ID = Some (maxGroupID cg + 1),
                   predicate = Some (\<lambda>key. collisionGroupID key = maxGroupID cg + 1) \<rparr>"
      using assms
      by (auto simp: CollisionGroups_get_def collisionGroups_at_def groups_ok_def Let_def)
    have old: "\<And>t h. collisionGroups cg t = Some h \<Longrightarrow>
        t \<notin> set Object_prototype_names \<and>
        (\<exists>n. ID h = Some n \<and> 0 < n \<and> n \<le> maxGroupID cg \<and>
             predicate h = Some (\<lambda>key. collisionGroupID key = n))"
      using assms(1) unfolding groups_ok_def by blast
    have inj: "\<And>t u h k. collisionGroups cg t = Some h \<Longrightarrow> collisionGroups cg u = Some k \<Longrightarrow>
        ID h = ID k \<Longrightarrow> t = u"
      using assms(1) unfolding groups_ok_def by blast
    have new: "ID g = Some (maxGroupID cg + 1)" by (simp add: g)
    show ?thesis
      unfolding groups_ok_def
    proof (intro conjI allI impI)
      show "\<not> crossSourceCollisions cg'"
        using assms(1) by (simp add: cg' groups_ok_def)
    next
      fix t h assume a: "collisionGroups cg' t = Some h"
      show "t \<notin> set Object_prototype_names"
      proof (cases "t = s")
        case True
        then show ?thesis using assms(2) by simp
      next
        case False
        then have "collisionGroups cg t = Some h" using a by (simp add: cg')
        from old[OF this] show ?thesis by simp
      qed
      show "\<exists>n. ID h = Some n \<and> 0 < n \<and> n \<le> maxGroupID cg' \<and>
             predicate h = Some (\<lambda>key. collisionGroupID key = n)"
      proof (cases "t = s")
        case True
        then have "h = g" using a by (simp add: cg')
        then show ?thesis by (simp add: g cg')
      next
        case False
        then have "collisionGroups cg t = Some h" using a by (simp add: cg')
        from old[OF this] obtain n where "ID h = Some n" "0 < n" "n \<le> maxGroupID cg"
          "predicate h = Some (\<lambda>key. collisionGroupID key = n)" by blast
        then show ?thesis by (simp add: cg')
      qed
    next
      fix t u h k
      assume a: "collisionGroups cg' t = Some h \<and> collisionGroups cg' u = Some k \<and> ID h = ID k"
      show "t = u"
      proof (cases "t = s")
        case True
        then have h: "ID h = Some (maxGroupID cg + 1)" using a new by (simp add: cg')
        show ?thesis
        proof (cases "u = s")
          case True
          with \<open>t = s\<close> show ?thesis by simp
        next
          case False
          then have "collisionGroups cg u = Some k" using a by (simp add: cg')
          from old[OF this] h a show ?thesis by auto
        qed
      next
        case False
        then have th: "collisionGroups cg t = Some h" using a by (simp add: cg')
        show ?thesis
        proof (cases "u = s")
          case True
          then have "ID k = Some (maxGroupID cg + 1)" using a new by (simp add: cg')
          with old[OF th] a show ?thesis by auto
        next
          case False
          then have "collisionGroups cg u = Some k" using a by (simp add: cg')
          from inj[OF th this] a show ?thesis by simp
        qed
      qed
    qed
  qed
qed

lemma get_all_groups:
  assumes "groups_ok cg" "set ss \<inter> set Object_prototype_names = {}" "get_all ss cg = (gs, cg')"
  shows "groups_ok cg' \<and> collisionGroups cg \<subseteq>\<^sub>m collisionGroups cg' \<and>
         length gs = length ss \<and> (\<forall>i<length ss. collisionGroups cg' (ss ! i) = Some (gs ! i))"
  using assms
proof (induction ss arbitrary: cg gs cg')
  case Nil
  then show ?case by simp
next
  case (Cons s ss)
  obtain g cg1 where g: "CollisionGroups_get s cg = (g, cg1)" by (cases "CollisionGroups_get s cg")
  obtain gs1 cg2 where gs1: "get_all ss cg1 = (gs1, cg2)" by (cases "get_all ss cg1")
  from Cons.prems(3) g gs1 have eq: "gs = g # gs1" "cg' = cg2" by simp_all
  from Cons.prems(2) have s: "s \<notin> set Object_prototype_names"
    and ss: "set ss \<inter> set Object_prototype_names = {}" by auto
  note step = get_groups_ok[OF Cons.prems(1) s g]
  from Cons.IH[OF step(1) ss gs1]
  have ih: "groups_ok cg2" "collisionGroups cg1 \<subseteq>\<^sub>m collisionGroups cg2"
    "length gs1 = length ss" "\<forall>i<length ss. collisionGroups cg2 (ss ! i) = Some (gs1 ! i)"
    by simp_all
  have head: "collisionGroups cg2 s = Some g"
    using step(2) ih(2) by (auto simp: map_le_def dom_def)
  have "\<forall>i<length (s # ss). collisionGroups cg2 ((s # ss) ! i) = Some ((g # gs1) ! i)"
  proof (intro allI impI)
    fix i assume "i < length (s # ss)"
    then show "collisionGroups cg2 ((s # ss) ! i) = Some ((g # gs1) ! i)"
      using head ih(4) by (cases i) simp_all
  qed
  moreover have "collisionGroups cg \<subseteq>\<^sub>m collisionGroups cg2"
    using step(3) ih(2) by (rule map_le_trans)
  ultimately show ?case
    using ih eq by simp
qed

text \<open>
  What \<open>get\<close> does for the source names that are not names of \<open>Object.prototype\<close>.
  With cross-source collisions it returns group 0 without a predicate, for every
  name, and leaves the instance as it is. Without, for any sequence of \<open>get\<close> calls
  with such names on a new instance: every group returned has a nonzero ID and a
  predicate that accepts exactly the keys of that ID; two calls for the same source
  return the same group, and two calls for different sources return different IDs.
\<close>

lemma get_all_assigned:
  assumes "set ss \<inter> set Object_prototype_names = {}"
    and run: "get_all ss (new_CollisionGroups False) = (gs, cg')"
  shows "length gs = length ss"
    and "\<forall>i<length ss.
         (\<exists>n. ID (gs ! i) = Some n \<and> n \<noteq> 0 \<and>
              (\<exists>p. predicate (gs ! i) = Some p \<and>
                   (\<forall>key. p key \<longleftrightarrow> collisionGroupID key = n)))"
    and "\<forall>i<length ss. \<forall>j<length ss.
         (ss ! i = ss ! j \<longrightarrow> gs ! i = gs ! j) \<and>
         (ss ! i \<noteq> ss ! j \<longrightarrow> ID (gs ! i) \<noteq> ID (gs ! j))"
proof -
  from get_all_groups[OF groups_ok_new assms(1) run]
  have ok: "groups_ok cg'" and len: "length gs = length ss"
    and at: "\<And>i. i < length ss \<Longrightarrow> collisionGroups cg' (ss ! i) = Some (gs ! i)"
    by simp_all
  show "length gs = length ss" by (rule len)
  show "\<forall>i<length ss.
         (\<exists>n. ID (gs ! i) = Some n \<and> n \<noteq> 0 \<and>
              (\<exists>p. predicate (gs ! i) = Some p \<and>
                   (\<forall>key. p key \<longleftrightarrow> collisionGroupID key = n)))"
  proof (intro allI impI)
    fix i assume "i < length ss"
    from at[OF this] ok
    obtain n where "ID (gs ! i) = Some n" "0 < n"
      "predicate (gs ! i) = Some (\<lambda>key. collisionGroupID key = n)"
      unfolding groups_ok_def by blast
    then show "\<exists>n. ID (gs ! i) = Some n \<and> n \<noteq> 0 \<and>
              (\<exists>p. predicate (gs ! i) = Some p \<and>
                   (\<forall>key. p key \<longleftrightarrow> collisionGroupID key = n))"
      by simp
  qed
  show "\<forall>i<length ss. \<forall>j<length ss.
         (ss ! i = ss ! j \<longrightarrow> gs ! i = gs ! j) \<and>
         (ss ! i \<noteq> ss ! j \<longrightarrow> ID (gs ! i) \<noteq> ID (gs ! j))"
  proof (intro allI impI conjI)
    fix i j assume i: "i < length ss" and j: "j < length ss"
    { assume "ss ! i = ss ! j"
      then show "gs ! i = gs ! j" using at[OF i] at[OF j] by simp }
    { assume ne: "ss ! i \<noteq> ss ! j"
      from ok have "\<And>s t g h. collisionGroups cg' s = Some g \<Longrightarrow> collisionGroups cg' t = Some h
          \<Longrightarrow> ID g = ID h \<Longrightarrow> s = t"
        unfolding groups_ok_def by blast
      from this[OF at[OF i] at[OF j]] ne
      show "ID (gs ! i) \<noteq> ID (gs ! j)" by blast }
  qed
qed

lemma get_crossSourceCollisions:
  "crossSourceCollisions cg \<Longrightarrow>
     CollisionGroups_get src cg = (\<lparr> ID = Some 0, predicate = None \<rparr>, cg)"
  by (simp add: CollisionGroups_get_def)

text \<open>
  C7 fails for a source named like a member of \<open>Object.prototype\<close>. On a new instance
  without cross-source collisions, \<open>get('constructor')\<close> finds the inherited member in
  \<open>this.collisionGroups\<close>, assigns nothing and returns that member: an object with no
  \<open>ID\<close> and no \<open>predicate\<close>, the instance left as it was with \<open>maxGroupID\<close> 0. A second
  such source, \<open>'toString'\<close>, gets no \<open>ID\<close> either, so the two sources are not told
  apart, while the ordinary source requested after them is given the ID 1.
\<close>

theorem CollisionGroups_get_constructor:
  "ID (fst (CollisionGroups_get ''constructor'' (new_CollisionGroups False))) = None \<and>
   predicate (fst (CollisionGroups_get ''constructor'' (new_CollisionGroups False))) = None \<and>
   snd (CollisionGroups_get ''constructor'' (new_CollisionGroups False)) =
     new_CollisionGroups False \<and>
   maxGroupID (snd (CollisionGroups_get ''constructor'' (new_CollisionGroups False))) = 0 \<and>
   map ID (fst (get_all requestedSources (new_CollisionGroups False))) = [None, None, Some 1]"
  by (simp add: requestedSources_def CollisionGroups_get_def collisionGroups_at_def Object_prototype_names_def
        inherited_member_def new_CollisionGroups_def Let_def)

subsection \<open>The anchor "auto"\<close>

lemma warnOnce_once:
  "m \<in> set (warnOnce m h)" "warnOnce m (warnOnce m h) = warnOnce m h"
  by (simp_all add: warnOnce_def)

text \<open>
  C9. An attempt with the anchor "auto" raises nothing and returns \<open>undefined\<close>; it
  changes the state in its warning history only, where the warning stands once
  however often it is given: the Placement (its collision index with it), the bucket
  and the arrays are as before. The anchor loop goes on with the anchors that follow.
\<close>

theorem attemptAnchorPlacement_auto:
  "attemptAnchorPlacement E ''auto'' dynamicAnchors ca tb offset tbs rotateMap pitchMap ratio
      matrix g js overlap symbolInstance st =
     (None, None, st\<lparr> warnOnceHistory := warnOnce autoWarning (warnOnceHistory st) \<rparr>) \<and>
   self (snd (snd (attemptAnchorPlacement E ''auto'' dynamicAnchors ca tb offset tbs rotateMap
      pitchMap ratio matrix g js overlap symbolInstance st))) = self st \<and>
   bucket (snd (snd (attemptAnchorPlacement E ''auto'' dynamicAnchors ca tb offset tbs rotateMap
      pitchMap ratio matrix g js overlap symbolInstance st))) = bucket st \<and>
   arrays (snd (snd (attemptAnchorPlacement E ''auto'' dynamicAnchors ca tb offset tbs rotateMap
      pitchMap ratio matrix g js overlap symbolInstance st))) = arrays st \<and>
   autoWarning \<in> set (warnOnce autoWarning (warnOnceHistory st)) \<and>
   warnOnce autoWarning (warnOnce autoWarning (warnOnceHistory st)) =
     warnOnce autoWarning (warnOnceHistory st) \<and>
   tryAnchors (anchorAttempt E args locals dynamicAnchors ca tb symbolInstance tbs)
      (''auto'' # rest) st =
     tryAnchors (anchorAttempt E args locals dynamicAnchors ca tb symbolInstance tbs) rest
       (st\<lparr> warnOnceHistory := warnOnce autoWarning (warnOnceHistory st) \<rparr>)"
proof -
  have a: "attemptAnchorPlacement E ''auto'' da ca tb offset tbs rotateMap pitchMap ratio
      matrix g js overlap symbolInstance st =
     (None, None, st\<lparr> warnOnceHistory := warnOnce autoWarning (warnOnceHistory st) \<rparr>)"
    for da rotateMap pitchMap ratio matrix g js overlap offset
    by (simp add: attemptAnchorPlacement_def)
  show ?thesis
    by (simp add: a anchorAttempt_def warnOnce_once)
qed

subsection \<open>The anchor search\<close>

lemma deref_alloc:
  "deref (store @ [xs]) (length store) = xs"
  "a < length store \<Longrightarrow> deref (store @ [xs]) a = deref store a"
  by (simp_all add: deref_def nth_append)

lemma candidateAnchors_previous:
  "candidateAnchors da (Some po) store =
     (let anchors = (if first (deref store da) = Some ''auto'' then AUTO_DYNAMIC_PLACEMENT else da)
      in if first (deref store anchors) = Some (anchor po) then (anchors, store)
         else (length store,
               store @ [anchor po # filter (\<lambda>a. a \<noteq> anchor po) (deref store anchors)]))"
  by (simp add: candidateAnchors_def Let_def alloc_def write_array_def deref_alloc)

lemma first_Some: "first xs = Some x \<longleftrightarrow> (\<exists>rest. xs = x # rest)"
  by (cases xs) (simp_all add: first_def)

lemma first_tl: "first xs = Some x \<Longrightarrow> xs = x # tl xs"
  by (cases xs) (simp_all add: first_def)

text \<open>The list the anchor loop runs over when the label has a previous offset.\<close>

lemma candidateAnchors_list:
  assumes "candidateAnchors da (Some po) store = (anchors, store')"
  defines "cands \<equiv> deref store (if first (deref store da) = Some ''auto''
                                 then AUTO_DYNAMIC_PLACEMENT else da)"
  shows "deref store' anchors =
           anchor po # (if first cands = Some (anchor po) then tl cands
                        else filter (\<lambda>a. a \<noteq> anchor po) cands)"
    and "store' = (if first cands = Some (anchor po) then store
                   else store @ [anchor po # filter (\<lambda>a. a \<noteq> anchor po) cands])"
  using assms
  by (auto simp: candidateAnchors_previous Let_def deref_alloc cands_def dest: first_tl
      split: if_splits)

subsection \<open>Frames\<close>

lemma hide_frame:
  "symbolInstances (hideUnplacedJustifications b j i) = symbolInstances b"
  "layout (hideUnplacedJustifications b j i) = layout b"
  by (simp_all add: hideUnplacedJustifications_def Let_def)

lemma frame_refl: "frame st st"
  by (simp add: frame_def)

lemma frame_trans: "frame a b \<Longrightarrow> frame b c \<Longrightarrow> frame a c"
  by (simp add: frame_def)

lemma attempt_frame:
  "attemptAnchorPlacement E a da ca tb off tbs rm pm ratio m g js ov inst st = (e, r, st')
   \<Longrightarrow> frame st st'"
  by (auto simp: attemptAnchorPlacement_def frame_def Let_def hide_frame
      split: if_splits option.splits prod.splits)

lemma tryAnchors_frame:
  assumes "\<And>a s e r s'. try a s = (e, r, s') \<Longrightarrow> frame s s'"
  shows "tryAnchors try as st = (e, r, st') \<Longrightarrow> frame st st'"
proof (induction as arbitrary: st)
  case Nil
  then show ?case by (simp add: frame_refl)
next
  case (Cons a as)
  obtain e1 r1 s1 where t: "try a st = (e1, r1, s1)" by (cases "try a st")
  from assms[OF t] have f: "frame st s1" .
  show ?case
  proof (cases "e1 = None \<and> r1 = None")
    case True
    with Cons.prems t have "tryAnchors try as s1 = (e, r, st')" by simp
    from Cons.IH[OF this] f show ?thesis by (rule frame_trans[rotated])
  next
    case False
    with Cons.prems t have "st' = s1" by (auto split: option.splits)
    with f show ?thesis by simp
  qed
qed

lemma inherit_frame:
  "inheritPreviousOffset E inst (e, r, st) = (e', r', st') \<Longrightarrow> frame st st'"
  by (auto simp: inheritPreviousOffset_def frame_def Let_def hide_frame
      split: option.splits if_splits)


subsection \<open>The previous anchor is attempted first\<close>

lemma tryAnchors_Cons:
  "tryAnchors try (a # as) st =
     (case try a st of (None, None, st1) \<Rightarrow> tryAnchors try as st1 | res \<Rightarrow> res)"
  by (simp split: prod.splits option.splits)

lemma placeDynamicText_previous_first:
  fixes E :: "'ci Externals" and st :: "'ci PState" and da :: nat
    and args locals ca tb symbolInstance
  assumes "previousOffsets (prevPlacement (self st)) (crossTileID symbolInstance) = Some po"
  defines "cands \<equiv> deref (arrays st) (if first (deref (arrays st) da) = Some ''auto''
                                       then AUTO_DYNAMIC_PLACEMENT else da)"
  defines "attempt \<equiv> anchorAttempt E args locals da ca tb symbolInstance
             (getTextboxScale E (tilePixelRatio (bucket st)) (layoutTextSize symbolInstance))"
  shows "placeDynamicText E args locals da ca tb symbolInstance st =
     inheritPreviousOffset E symbolInstance
       (case attempt (anchor po)
               (st\<lparr> arrays :=
                      (if first cands = Some (anchor po) then arrays st
                       else arrays st @ [anchor po # filter (\<lambda>a. a \<noteq> anchor po) cands]) \<rparr>) of
          (None, None, st1) \<Rightarrow>
            tryAnchors attempt
              (if first cands = Some (anchor po) then tl cands
               else filter (\<lambda>a. a \<noteq> anchor po) cands) st1
        | res \<Rightarrow> res)"
proof -
  obtain anchors store where c: "candidateAnchors da (Some po) (arrays st) = (anchors, store)"
    by (cases "candidateAnchors da (Some po) (arrays st)")
  note l = candidateAnchors_list[OF c, folded cands_def]
  have "placeDynamicText E args locals da ca tb symbolInstance st =
      inheritPreviousOffset E symbolInstance
        (tryAnchors attempt (deref store anchors) (st\<lparr> arrays := store \<rparr>))"
    using assms(1) c by (simp add: placeDynamicText_def Let_def attempt_def)
  also have "tryAnchors attempt (deref store anchors) (st\<lparr> arrays := store \<rparr>) =
      (case attempt (anchor po) (st\<lparr> arrays := store \<rparr>) of
          (None, None, st1) \<Rightarrow>
            tryAnchors attempt
              (if first cands = Some (anchor po) then tl cands
               else filter (\<lambda>a. a \<noteq> anchor po) cands) st1
        | res \<Rightarrow> res)"
    unfolding l(1) by (rule tryAnchors_Cons)
  finally show ?thesis unfolding l(2) .
qed

lemma placeDynamicText_frame:
  assumes "placeDynamicText E args locals da ca tb inst st = (e, r, st')"
  shows "symbolInstances (bucket st') = symbolInstances (bucket st)"
    and "prevPlacement (self st') = prevPlacement (self st)"
    and "arrays st' = snd (candidateAnchors da
            (previousOffsets (prevPlacement (self st)) (crossTileID inst)) (arrays st))"
proof -
  obtain anchors store where c: "candidateAnchors da
      (previousOffsets (prevPlacement (self st)) (crossTileID inst)) (arrays st) = (anchors, store)"
    by (cases "candidateAnchors da
      (previousOffsets (prevPlacement (self st)) (crossTileID inst)) (arrays st)")
  define attempt where "attempt = anchorAttempt E args locals da ca tb inst
       (getTextboxScale E (tilePixelRatio (bucket st)) (layoutTextSize inst))"
  obtain e1 r1 s1 where t:
    "tryAnchors attempt (deref store anchors) (st\<lparr> arrays := store \<rparr>) = (e1, r1, s1)"
    by (cases "tryAnchors attempt (deref store anchors) (st\<lparr> arrays := store \<rparr>)")
  have f1: "frame (st\<lparr> arrays := store \<rparr>) s1"
    using t by (rule tryAnchors_frame[rotated])
      (auto simp: attempt_def anchorAttempt_def intro: attempt_frame)
  have "inheritPreviousOffset E inst (e1, r1, s1) = (e, r, st')"
    using assms c t by (simp add: placeDynamicText_def Let_def attempt_def)
  then have f2: "frame s1 st'" by (rule inherit_frame)
  from frame_trans[OF f1 f2]
  show "symbolInstances (bucket st') = symbolInstances (bucket st)"
    and "prevPlacement (self st') = prevPlacement (self st)"
    and "arrays st' = snd (candidateAnchors da
            (previousOffsets (prevPlacement (self st)) (crossTileID inst)) (arrays st))"
    by (simp_all add: frame_def c)
qed

lemma candidateAnchors_keeps:
  assumes "a < length store"
  shows "deref (snd (candidateAnchors da prevOffsets store)) a = deref store a"
proof (cases prevOffsets)
  case None
  then show ?thesis by (simp add: candidateAnchors_def Let_def)
next
  case (Some po)
  then show ?thesis using assms by (simp add: candidateAnchors_previous Let_def deref_alloc)
qed

subsection \<open>The loop of placeLayerBucket\<close>

lemma resolve_symbolInstances:
  assumes "resolveSymbolInstance E args locals i st = (e, st')"
  shows "symbolInstances (bucket st') = symbolInstances (bucket st)"
proof (cases "collisionArrays (bucket st)")
  case None
  with assms show ?thesis by (simp add: resolveSymbolInstance_def Let_def)
next
  case (Some arrs)
  show ?thesis
  proof (cases "i < length arrs")
    case False
    with assms Some show ?thesis by (simp add: resolveSymbolInstance_def Let_def)
  next
    case True
    define inst where "inst = symbolInstances (bucket st) ! i"
    obtain e1 g1 p1 s1 where t: "placeTextBox E args locals (arrs ! i) inst st = (e1, g1, p1, s1)"
      by (cases "placeTextBox E args locals (arrs ! i) inst st") auto
    have b1: "symbolInstances (bucket s1) = symbolInstances (bucket st)"
      using t
      by (auto simp: placeTextBox_def Let_def split: option.splits prod.splits
          dest: placeDynamicText_frame(1))
    show ?thesis
    proof (cases e1)
      case (Some err)
      with assms t True \<open>collisionArrays (bucket st) = Some arrs\<close> b1 show ?thesis
        by (simp add: resolveSymbolInstance_def Let_def inst_def)
    next
      case None
      obtain c2 p2 o2 s2 where tc: "placeTextCircles E args locals (arrs ! i) inst p1
          (case g1 of None \<Rightarrow> False | Some r \<Rightarrow> offscreen r) s1 = (c2, p2, o2, s2)"
        by (cases "placeTextCircles E args locals (arrs ! i) inst p1
          (case g1 of None \<Rightarrow> False | Some r \<Rightarrow> offscreen r) s1") auto
      have b2: "bucket s2 = bucket s1"
        using tc by (auto simp: placeTextCircles_def Let_def split: option.splits prod.splits)
      obtain c3 p3 o3 s3 where ti: "placeIconBox E args locals (arrs ! i) o2 s2 = (c3, p3, o3, s3)"
        by (cases "placeIconBox E args locals (arrs ! i) o2 s2") auto
      have b3: "bucket s3 = bucket s2"
        using ti by (auto simp: placeIconBox_def Let_def split: option.splits prod.splits)
      from assms t None tc ti True \<open>collisionArrays (bucket st) = Some arrs\<close>
      have "bucket st' = bucket s3"
        by (auto simp: resolveSymbolInstance_def Let_def inst_def split: prod.splits if_splits)
      with b1 b2 b3 show ?thesis by simp
    qed
  qed
qed

lemma turn_cases:
  assumes "placeSymbolInstance E args locals i (st, seen) = (e, st', seen')"
  shows "symbolInstances (bucket st') = symbolInstances (bucket st)"
    and "seen' = seen \<or> (e = None \<and> seen' = seen(crossTileID (symbolInstances (bucket st) ! i) \<mapsto> True))"
    and "e = None \<Longrightarrow> \<not> holdingForFade args \<Longrightarrow>
         truthy (seen' (crossTileID (symbolInstances (bucket st) ! i)))"
  using assms
  by (auto simp: placeSymbolInstance_def Let_def truthy_def
      split: if_splits prod.splits option.splits dest: resolve_symbolInstances)

lemma turn_seen:
  "truthy (seen (crossTileID (symbolInstances (bucket st) ! i))) \<Longrightarrow>
   placeSymbolInstance E args locals i (st, seen) = (None, st, seen)"
  by (simp add: placeSymbolInstance_def Let_def)

lemma turn_unseen:
  "\<not> truthy (seen (crossTileID (symbolInstances (bucket st) ! i))) \<Longrightarrow> \<not> holdingForFade args \<Longrightarrow>
   placeSymbolInstance E args locals i (st, seen) =
     (case resolveSymbolInstance E args locals i st of
        (Some e, st') \<Rightarrow> (Some e, st', seen)
      | (None, st') \<Rightarrow> (None, st', seen(crossTileID (symbolInstances (bucket st) ! i) \<mapsto> True)))"
  by (simp add: placeSymbolInstance_def Let_def)

lemma loop_invariant:
  assumes "placeSymbolInstances E args locals is (st, seen) = (e, st', seen')"
  shows "symbolInstances (bucket st') = symbolInstances (bucket st) \<and>
    (\<forall>c. truthy (seen c) \<longrightarrow> truthy (seen' c)) \<and>
    (\<forall>c. (\<forall>i\<in>set is. crossTileID (symbolInstances (bucket st) ! i) \<noteq> c) \<longrightarrow> seen' c = seen c) \<and>
    (e = None \<longrightarrow> \<not> holdingForFade args \<longrightarrow>
       (\<forall>i\<in>set is. truthy (seen' (crossTileID (symbolInstances (bucket st) ! i)))))"
  using assms
proof (induction "is" arbitrary: st seen)
  case Nil
  then show ?case by simp
next
  case (Cons k ks)
  obtain e1 s1 seen1 where t: "placeSymbolInstance E args locals k (st, seen) = (e1, s1, seen1)"
    by (cases "placeSymbolInstance E args locals k (st, seen)")
  note tc = turn_cases[OF t]
  have mono: "truthy (seen c) \<Longrightarrow> truthy (seen1 c)" for c
    using tc(2) by (auto simp: truthy_def)
  have other: "crossTileID (symbolInstances (bucket st) ! k) \<noteq> c \<Longrightarrow> seen1 c = seen c" for c
    using tc(2) by auto
  show ?case
  proof (cases e1)
    case (Some err)
    with Cons.prems t have "e = Some err" "st' = s1" "seen' = seen1" by simp_all
    with tc(1) mono other show ?thesis by simp
  next
    case None
    with Cons.prems t have "placeSymbolInstances E args locals ks (s1, seen1) = (e, st', seen')"
      by simp
    from Cons.IH[OF this]
    have ih1: "symbolInstances (bucket st') = symbolInstances (bucket s1)"
      and ih2: "\<And>c. truthy (seen1 c) \<Longrightarrow> truthy (seen' c)"
      and ih3: "\<And>c. \<forall>i\<in>set ks. crossTileID (symbolInstances (bucket s1) ! i) \<noteq> c
                  \<Longrightarrow> seen' c = seen1 c"
      and ih4: "e = None \<Longrightarrow> \<not> holdingForFade args \<Longrightarrow>
         (\<forall>i\<in>set ks. truthy (seen' (crossTileID (symbolInstances (bucket s1) ! i))))"
      by blast+
    have p1: "symbolInstances (bucket st') = symbolInstances (bucket st)"
      using ih1 tc(1) by simp
    have p2: "\<forall>c. truthy (seen c) \<longrightarrow> truthy (seen' c)"
      using mono ih2 by blast
    have p3: "\<forall>c. (\<forall>i\<in>set (k # ks). crossTileID (symbolInstances (bucket st) ! i) \<noteq> c)
                \<longrightarrow> seen' c = seen c"
    proof (intro allI impI)
      fix c assume a: "\<forall>i\<in>set (k # ks). crossTileID (symbolInstances (bucket st) ! i) \<noteq> c"
      then have "\<forall>i\<in>set ks. crossTileID (symbolInstances (bucket s1) ! i) \<noteq> c"
        using tc(1) by simp
      from ih3[OF this] other[of c] a show "seen' c = seen c" by simp
    qed
    have p4: "e = None \<longrightarrow> \<not> holdingForFade args \<longrightarrow>
       (\<forall>i\<in>set (k # ks). truthy (seen' (crossTileID (symbolInstances (bucket st) ! i))))"
    proof (intro impI ballI)
      fix i assume e: "e = None" and h: "\<not> holdingForFade args" and i: "i \<in> set (k # ks)"
      show "truthy (seen' (crossTileID (symbolInstances (bucket st) ! i)))"
      proof (cases "i = k")
        case True
        from tc(3)[OF None h] have "truthy (seen1 (crossTileID (symbolInstances (bucket st) ! k)))" .
        from ih2[OF this] True show ?thesis by simp
      next
        case False
        with i have "i \<in> set ks" by simp
        with ih4[OF e h] tc(1) show ?thesis by simp
      qed
    qed
    from p1 p2 p3 p4 show ?thesis by blast
  qed
qed

subsection \<open>Evaluation of the concrete inputs\<close>

lemma sweep_start:
  "placeLayerBucket_start loggingIndex sweepArgs sweepStart =
     (bucketLocals loggingIndex iconBucket \<lparr> zoom = 0, angle = 0 \<rparr> \<lparr> ID = Some 0, predicate = None \<rparr>,
      sweepStart)"
  by (simp add: placeLayerBucket_start_def sweepStart_def newPlacement_def iconBucket_def
      sweepArgs_def CollisionGroups_get_def new_CollisionGroups_def)

lemma sweep_resolve:
  "resolveSymbolInstance loggingIndex sweepArgs
     (bucketLocals loggingIndex iconBucket \<lparr> zoom = 0, angle = 0 \<rparr> \<lparr> ID = Some 0, predicate = None \<rparr>)
     0 sweepStart = (None, iconPlaced)"
  by (simp add: resolveSymbolInstance_def iconPlaced_def sweepStart_def newPlacement_def
      iconBucket_def sweepArgs_def bucketLocals_def plainLayout_def placeTextBox_def
      placeTextCircles_def placeIconBox_def coupleTextAndIcon_def insertPlaced_def
      loggingIndex_def iconOnlyLabel_def unitBox_def Let_def)

lemma sweep_start': "placeLayerBucket_start loggingIndex sweepArgs sweepStart = (sweepLocals, sweepStart)"
  by (simp add: sweep_start sweepLocals_def)

lemma sweep_resolve':
  "resolveSymbolInstance loggingIndex sweepArgs sweepLocals 0 sweepStart = (None, iconPlaced)"
  by (simp add: sweep_resolve sweepLocals_def)

lemma sweep_facts:
  "\<not> holdingForFade sweepArgs"
  "bucket sweepStart = iconBucket" "bucket iconPlaced = iconBucket"
  "symbolInstances iconBucket = [iconOnlyLabel]" "crossTileID iconOnlyLabel = 7"
  "iconPlaced\<lparr> bucket := iconBucket \<rparr> = iconPlaced"
  "iconPlaced\<lparr> bucket := iconBucket\<lparr> justReloaded := False \<rparr> \<rparr> = iconPlaced"
  "collisionIndex (self iconPlaced) = [''placeCollisionBox'', ''insertCollisionBox'']"
  "lookup (placements (self iconPlaced)) 7 = Some \<lparr> jp_text = False, jp_icon = True, skipFade = False \<rparr>"
  by (simp_all add: sweepArgs_def sweepStart_def iconPlaced_def iconBucket_def iconOnlyLabel_def
      newPlacement_def lookup_def)

lemma sweep_second_start:
  "placeLayerBucket_start loggingIndex sweepArgs iconPlaced = (sweepLocals, iconPlaced)"
  by (simp add: placeLayerBucket_start_def iconPlaced_def sweepStart_def newPlacement_def
      iconBucket_def sweepArgs_def CollisionGroups_get_def new_CollisionGroups_def sweepLocals_def)

lemma sweep_first_turn:
  "placeSymbolInstance loggingIndex sweepArgs sweepLocals 0 (sweepStart, Map.empty) =
     (None, iconPlaced, [7 \<mapsto> True])"
  by (simp add: placeSymbolInstance_def sweep_facts sweep_resolve' truthy_def)

lemma sweep_first:
  "placeLayerBucket loggingIndex sweepArgs (sweepStart, Map.empty) =
     (None, iconPlaced, [7 \<mapsto> True])"
  by (simp add: placeLayerBucket_def sweep_start' sweep_facts sweep_first_turn)

lemma rejected_facts:
  "bucketLocals rejectingIndex iconBucket tr g = bucketLocals loggingIndex iconBucket tr g"
  "iconRejected\<lparr> bucket := iconBucket \<rparr> = iconRejected"
  "iconRejected\<lparr> bucket := iconBucket\<lparr> justReloaded := False \<rparr> \<rparr> = iconRejected"
  "bucket iconRejected = iconBucket"
  "collisionIndex (self iconRejected) = [''placeCollisionBox'']"
  "lookup (placements (self iconRejected)) 7 =
     Some \<lparr> jp_text = False, jp_icon = False, skipFade = False \<rparr>"
  by (simp_all add: bucketLocals_def rejectingIndex_def loggingIndex_def iconRejected_def
      sweepStart_def iconBucket_def newPlacement_def lookup_def)

lemma iconBucket_fields:
  "collisionArrays iconBucket \<noteq> None" "sourceID iconBucket = ''places''"
  by (simp_all add: iconBucket_def)

lemma rejected_start:
  "placeLayerBucket_start rejectingIndex sweepArgs sweepStart = (sweepLocals, sweepStart)"
  "placeLayerBucket_start rejectingIndex sweepArgs iconRejected = (sweepLocals, iconRejected)"
  using iconBucket_fields(1)
  by (auto simp: placeLayerBucket_start_def sweepStart_def iconRejected_def newPlacement_def
      sweepArgs_def CollisionGroups_get_def new_CollisionGroups_def
      sweepLocals_def rejected_facts(1) iconBucket_fields(2))

lemma rejected_resolve:
  "resolveSymbolInstance rejectingIndex sweepArgs sweepLocals 0 sweepStart = (None, iconRejected)"
  by (simp add: resolveSymbolInstance_def iconRejected_def sweepStart_def newPlacement_def
      iconBucket_def sweepArgs_def sweepLocals_def bucketLocals_def plainLayout_def
      placeTextBox_def placeTextCircles_def placeIconBox_def coupleTextAndIcon_def
      insertPlaced_def rejectingIndex_def loggingIndex_def iconOnlyLabel_def unitBox_def Let_def)

lemma anchor_facts:
  "previousOffsets (prevPlacement (self (anchorState a))) (crossTileID textLabel) =
     Some (placedAt a None)"
  "anchor (placedAt a p) = a"
  "arrays (anchorState a) = [AUTO_DYNAMIC_PLACEMENT_elements, [''top'', ''bottom'']]"
  "getTextboxScale loggingIndex (tilePixelRatio (bucket (anchorState a))) (layoutTextSize textLabel) = 1"
  "arrays (anchoredAt a store) = store"
  by (simp_all add: previousOffsets_def anchorState_def anchoredAt_def newPlacement_def previousAt_def
      textLabel_def lookup_def placedAt_def loggingIndex_def)

lemma explicit_list:
  "deref [AUTO_DYNAMIC_PLACEMENT_elements, [''top'', ''bottom'']] layoutAnchors = [''top'', ''bottom'']"
  "deref [AUTO_DYNAMIC_PLACEMENT_elements, [''top'', ''bottom''], xs] layoutAnchors = [''top'', ''bottom'']"
  "first [''top'', ''bottom''] = Some ''top''"
  "layoutAnchors < Suc (Suc 0)"
  by (simp_all add: deref_def first_def layoutAnchors_def)

lemma attempt_placed:
  assumes "a = ''bottom'' \<or> a = ''center''"
  shows "anchorAttempt loggingIndex sweepArgs textLocals layoutAnchors textArrays unitBox textLabel 1 a
     ((anchorState a)\<lparr> arrays := store \<rparr>) =
     (None, Some \<lparr> box = [0, 0, 1, 1], offscreen = False \<rparr>, anchoredAt a store)"
  using assms
  by (auto simp: anchorAttempt_def attemptAnchorPlacement_def anchorState_def anchoredAt_def
      textArrays_def textLocals_def bucketLocals_def textBucket_def plainLayout_def
      sweepArgs_def loggingIndex_def unitBox_def textLabel_def newPlacement_def previousAt_def
      placedAt_def previousAnchor_def lookup_def justification_indices_def
      calculateDynamicLayoutOffset_def shiftDynamicCollisionBox_def
      hideUnplacedJustifications_def set_crossTileID_def Let_def first_def deref_def)

lemma inherit_placed:
  "inheritPreviousOffset loggingIndex textLabel (None, r, anchoredAt a store) =
     (None, r, anchoredAt a store)"
  by (simp add: inheritPreviousOffset_def anchoredAt_def textLabel_def lookup_def Let_def)

subsection \<open>Anchor stability\<close>

text \<open>
  In a layer with \<open>dynamic-text-anchor\<close>, the text box of a label is placed by the
  anchor search.
\<close>

lemma placeTextBox_dynamic:
  assumes "textBox ca = Some tb" and "dynamic_text_anchor (layout (bucket st)) = Some da"
  shows "placeTextBox E args locals ca symbolInstance st =
     (case placeDynamicText E args locals da ca tb symbolInstance st of
        (e, placedGlyphBoxes, st1) \<Rightarrow> (e, placedGlyphBoxes, placedGlyphBoxes \<noteq> None, st1))"
  using assms by (simp add: placeTextBox_def)

text \<open>
  C6. For a label with a text box in a layer with \<open>dynamic-text-anchor\<close> that has a
  dynamic offset record in the previous placement, whose anchor is among the
  candidates (the layout's list, or the nine anchors of \<open>AUTO_DYNAMIC_PLACEMENT\<close> when
  the list starts with "auto"): the anchor search of \<open>placeLayerBucket\<close> makes its
  first attempt with that anchor, before any other candidate, and goes on with the
  other candidates only when that attempt places nothing; the anchors attempted are
  the candidates.
\<close>

theorem previous_anchor_attempted_first:
  fixes E :: "'ci Externals" and st :: "'ci PState" and da :: nat
    and args locals ca tb symbolInstance
  defines "cands \<equiv> deref (arrays st) (if first (deref (arrays st) da) = Some ''auto''
                                       then AUTO_DYNAMIC_PLACEMENT else da)"
  defines "attempt \<equiv> anchorAttempt E args locals da ca tb symbolInstance
             (getTextboxScale E (tilePixelRatio (bucket st)) (layoutTextSize symbolInstance))"
  assumes "previousOffsets (prevPlacement (self st)) (crossTileID symbolInstance) = Some po"
    and "anchor po \<in> set cands"
  shows "placeDynamicText E args locals da ca tb symbolInstance st =
     inheritPreviousOffset E symbolInstance
       (case attempt (anchor po)
               (st\<lparr> arrays :=
                      (if first cands = Some (anchor po) then arrays st
                       else arrays st @ [anchor po # filter (\<lambda>a. a \<noteq> anchor po) cands]) \<rparr>) of
          (None, None, st1) \<Rightarrow>
            tryAnchors attempt
              (if first cands = Some (anchor po) then tl cands
               else filter (\<lambda>a. a \<noteq> anchor po) cands) st1
        | res \<Rightarrow> res) \<and>
     set (anchor po # (if first cands = Some (anchor po) then tl cands
                       else filter (\<lambda>a. a \<noteq> anchor po) cands)) = set cands"
proof
  show "placeDynamicText E args locals da ca tb symbolInstance st =
     inheritPreviousOffset E symbolInstance
       (case attempt (anchor po)
               (st\<lparr> arrays :=
                      (if first cands = Some (anchor po) then arrays st
                       else arrays st @ [anchor po # filter (\<lambda>a. a \<noteq> anchor po) cands]) \<rparr>) of
          (None, None, st1) \<Rightarrow>
            tryAnchors attempt
              (if first cands = Some (anchor po) then tl cands
               else filter (\<lambda>a. a \<noteq> anchor po) cands) st1
        | res \<Rightarrow> res)"
    unfolding cands_def attempt_def
    by (rule placeDynamicText_previous_first) (rule assms(3))
  show "set (anchor po # (if first cands = Some (anchor po) then tl cands
                       else filter (\<lambda>a. a \<noteq> anchor po) cands)) = set cands"
  proof (cases "first cands = Some (anchor po)")
    case True
    from first_tl[OF this] have "set cands = set (anchor po # tl cands)" by simp
    with True show ?thesis by simp
  next
    case False
    with assms(4) show ?thesis by auto
  qed
qed

text \<open>
  The list is \<open>["top", "bottom"]\<close> and the label was at "bottom": "bottom" is attempted
  first and the label is placed there, in one query of the collision index.
\<close>

theorem previous_anchor_attempted_first_witness:
  "placeDynamicText loggingIndex sweepArgs textLocals layoutAnchors textArrays unitBox textLabel
     (anchorState ''bottom'') =
     (None, Some \<lparr> box = [0, 0, 1, 1], offscreen = False \<rparr>,
      anchoredAt ''bottom''
        [AUTO_DYNAMIC_PLACEMENT_elements, [''top'', ''bottom''], [''bottom'', ''top'']]) \<and>
   set [''bottom'', ''top''] = set [''top'', ''bottom'']"
proof -
  have mem: "anchor (placedAt ''bottom'' None) \<in>
      set (deref (arrays (anchorState ''bottom''))
            (if first (deref (arrays (anchorState ''bottom'')) layoutAnchors) = Some ''auto''
             then AUTO_DYNAMIC_PLACEMENT else layoutAnchors))"
    by (simp add: anchor_facts explicit_list)
  from previous_anchor_attempted_first[OF anchor_facts(1) mem,
      of loggingIndex sweepArgs textLocals textArrays unitBox]
  show ?thesis
    by (simp add: anchor_facts explicit_list attempt_placed inherit_placed)
qed

text \<open>
  C10. For a label with a text box in a layer whose \<open>dynamic-text-anchor\<close> list is
  explicit (it does not start with "auto"), with a dynamic offset record in the
  previous placement: the first attempt of the anchor search is with the anchor of
  that record, whether the list holds it or not; when the list does not hold it, the
  whole list follows. Unless the list starts with that anchor, the attempts run over
  a new array (the filtered copy, with the anchor put in front). The layout's array
  holds what it held before, when the attempts start and after the whole search.
\<close>

theorem previous_anchor_front_of_copy:
  fixes E :: "'ci Externals" and st :: "'ci PState" and da :: nat
    and args locals ca tb symbolInstance
  defines "xs \<equiv> deref (arrays st) da"
  defines "attempt \<equiv> anchorAttempt E args locals da ca tb symbolInstance
             (getTextboxScale E (tilePixelRatio (bucket st)) (layoutTextSize symbolInstance))"
  assumes "previousOffsets (prevPlacement (self st)) (crossTileID symbolInstance) = Some po"
    and "first xs \<noteq> Some ''auto''"
    and "da < length (arrays st)"
  shows "placeDynamicText E args locals da ca tb symbolInstance st =
     inheritPreviousOffset E symbolInstance
       (case attempt (anchor po)
               (st\<lparr> arrays :=
                      (if first xs = Some (anchor po) then arrays st
                       else arrays st @ [anchor po # filter (\<lambda>a. a \<noteq> anchor po) xs]) \<rparr>) of
          (None, None, st1) \<Rightarrow>
            tryAnchors attempt
              (if first xs = Some (anchor po) then tl xs
               else filter (\<lambda>a. a \<noteq> anchor po) xs) st1
        | res \<Rightarrow> res) \<and>
     (anchor po \<notin> set xs \<longrightarrow>
        first xs \<noteq> Some (anchor po) \<and> filter (\<lambda>a. a \<noteq> anchor po) xs = xs) \<and>
     deref (if first xs = Some (anchor po) then arrays st
            else arrays st @ [anchor po # filter (\<lambda>a. a \<noteq> anchor po) xs]) da = xs \<and>
     deref (arrays (snd (snd (placeDynamicText E args locals da ca tb symbolInstance st)))) da = xs"
proof (intro conjI impI)
  have c: "deref (arrays st) (if first (deref (arrays st) da) = Some ''auto''
                               then AUTO_DYNAMIC_PLACEMENT else da) = xs"
    using assms(4) by (simp add: xs_def)
  show "placeDynamicText E args locals da ca tb symbolInstance st =
     inheritPreviousOffset E symbolInstance
       (case attempt (anchor po)
               (st\<lparr> arrays :=
                      (if first xs = Some (anchor po) then arrays st
                       else arrays st @ [anchor po # filter (\<lambda>a. a \<noteq> anchor po) xs]) \<rparr>) of
          (None, None, st1) \<Rightarrow>
            tryAnchors attempt
              (if first xs = Some (anchor po) then tl xs
               else filter (\<lambda>a. a \<noteq> anchor po) xs) st1
        | res \<Rightarrow> res)"
    using placeDynamicText_previous_first[OF assms(3), of E args locals da ca tb,
        unfolded c, folded attempt_def] .
  { assume out: "anchor po \<notin> set xs"
    then show "first xs \<noteq> Some (anchor po)" by (auto simp: first_Some)
    from out show "filter (\<lambda>a. a \<noteq> anchor po) xs = xs" by (induction xs) auto }
  show "deref (if first xs = Some (anchor po) then arrays st
            else arrays st @ [anchor po # filter (\<lambda>a. a \<noteq> anchor po) xs]) da = xs"
    using assms(5) by (simp add: deref_alloc xs_def)
  obtain e r st' where run: "placeDynamicText E args locals da ca tb symbolInstance st = (e, r, st')"
    by (cases "placeDynamicText E args locals da ca tb symbolInstance st")
  from placeDynamicText_frame(3)[OF run] candidateAnchors_keeps[OF assms(5)]
  show "deref (arrays (snd (snd (placeDynamicText E args locals da ca tb symbolInstance st)))) da = xs"
    by (simp add: run xs_def)
qed

text \<open>
  The list is \<open>["top", "bottom"]\<close> and the label was at "center": "center" is attempted
  first and the label is placed there; the layout's array is \<open>["top", "bottom"]\<close> still.
\<close>

theorem previous_anchor_front_of_copy_witness:
  "placeDynamicText loggingIndex sweepArgs textLocals layoutAnchors textArrays unitBox textLabel
     (anchorState ''center'') =
     (None, Some \<lparr> box = [0, 0, 1, 1], offscreen = False \<rparr>,
      anchoredAt ''center''
        [AUTO_DYNAMIC_PLACEMENT_elements, [''top'', ''bottom''], [''center'', ''top'', ''bottom'']]) \<and>
   ''center'' \<notin> set [''top'', ''bottom''] \<and>
   deref (arrays (snd (snd (placeDynamicText loggingIndex sweepArgs textLocals layoutAnchors
     textArrays unitBox textLabel (anchorState ''center''))))) layoutAnchors = [''top'', ''bottom'']"
proof -
  have explicit: "first (deref (arrays (anchorState ''center'')) layoutAnchors) \<noteq> Some ''auto''"
    and valid: "layoutAnchors < length (arrays (anchorState ''center''))"
    by (simp_all add: anchor_facts explicit_list)
  from previous_anchor_front_of_copy[OF anchor_facts(1) explicit valid,
      of loggingIndex sweepArgs textLocals textArrays unitBox]
  show ?thesis
    by (simp add: anchor_facts explicit_list attempt_placed inherit_placed)
qed

subsection \<open>Duplicates across tiles\<close>

lemma insertPlaced_nothing:
  "insertPlaced E locals b False False glyphBoxes iconBoxes glyphCircles tf fi ci = ci"
  by (simp add: insertPlaced_def split: option.splits)

lemma start_symbolInstances:
  "placeLayerBucket_start E args st = (locals, s1) \<Longrightarrow>
   symbolInstances (bucket s1) = symbolInstances (bucket st)"
  by (auto simp: placeLayerBucket_start_def Let_def split: prod.splits option.splits)

text \<open>
  What the resolution of a symbol instance leaves in the Placement, from the results
  of its three placement steps and of the coupling, and the three guards of the
  insertions written out.
\<close>

lemma resolve_inserts:
  assumes res: "resolveSymbolInstance E args locals i st = (None, st')"
    and arrs: "collisionArrays (bucket st) = Some arrs"
    and tb: "placeTextBox E args locals (arrs ! i) (symbolInstances (bucket st) ! i) st =
               (None, glyphBoxes, placeText1, t1)"
    and tc: "placeTextCircles E args locals (arrs ! i) (symbolInstances (bucket st) ! i) placeText1
               (case glyphBoxes of None \<Rightarrow> False | Some r \<Rightarrow> offscreen r) t1 =
               (glyphCircles, placeText2, offscreen2, t2)"
    and ib: "placeIconBox E args locals (arrs ! i) offscreen2 t2 =
               (iconBoxes, placeIcon1, offscreen3, t3)"
    and cp: "coupleTextAndIcon (textOptional locals) (iconOptional locals)
               (symbolInstances (bucket st) ! i) placeText2 placeIcon1 = (placeText, placeIcon)"
  shows "collisionIndex (self st') =
           insertPlaced E locals (bucket t3) placeText placeIcon glyphBoxes iconBoxes glyphCircles
             (case textFeatureIndex (arrs ! i) of Some n \<Rightarrow> n | None \<Rightarrow> 0)
             (case iconFeatureIndex (arrs ! i) of Some n \<Rightarrow> n | None \<Rightarrow> 0)
             (collisionIndex (self t3))"
    and "lookup (placements (self st')) (crossTileID (symbolInstances (bucket st) ! i)) =
           Some \<lparr> jp_text = placeText \<or> alwaysShowText locals,
                  jp_icon = placeIcon \<or> alwaysShowIcon locals,
                  skipFade = offscreen3 \<or> justReloaded (bucket t3) \<rparr>"
proof -
  have i: "i < length arrs"
    using res arrs by (auto simp: resolveSymbolInstance_def Let_def split: if_splits)
  from res arrs i tb tc ib cp
  have st': "st' = (t3\<lparr> self := (self t3)\<lparr> collisionIndex :=
                 insertPlaced E locals (bucket t3) placeText placeIcon glyphBoxes iconBoxes
                   glyphCircles
                   (case textFeatureIndex (arrs ! i) of Some n \<Rightarrow> n | None \<Rightarrow> 0)
                   (case iconFeatureIndex (arrs ! i) of Some n \<Rightarrow> n | None \<Rightarrow> 0)
                   (collisionIndex (self t3)),
               placements := assign (crossTileID (symbolInstances (bucket st) ! i))
                   \<lparr> jp_text = placeText \<or> alwaysShowText locals,
                     jp_icon = placeIcon \<or> alwaysShowIcon locals,
                     skipFade = offscreen3 \<or> justReloaded (bucket t3) \<rparr>
                   (placements (self t3)) \<rparr> \<rparr>)"
    by (simp add: resolveSymbolInstance_def Let_def split: if_splits)
  show "collisionIndex (self st') =
           insertPlaced E locals (bucket t3) placeText placeIcon glyphBoxes iconBoxes glyphCircles
             (case textFeatureIndex (arrs ! i) of Some n \<Rightarrow> n | None \<Rightarrow> 0)
             (case iconFeatureIndex (arrs ! i) of Some n \<Rightarrow> n | None \<Rightarrow> 0)
             (collisionIndex (self t3))"
    by (simp add: st')
  show "lookup (placements (self st')) (crossTileID (symbolInstances (bucket st) ! i)) =
           Some \<lparr> jp_text = placeText \<or> alwaysShowText locals,
                  jp_icon = placeIcon \<or> alwaysShowIcon locals,
                  skipFade = offscreen3 \<or> justReloaded (bucket t3) \<rparr>"
    by (simp add: st' lookup_assign_at)
qed

lemma insertPlaced_guards:
  "insertPlaced E locals b placeText placeIcon glyphBoxes iconBoxes glyphCircles tf fi ci =
     (let ci1 = (if placeText \<and> glyphBoxes \<noteq> None
                 then insertCollisionBox E ci (box (the glyphBoxes))
                        (text_ignore_placement (layout b)) (bucketInstanceId b) tf
                        (ID (collisionGroup locals))
                 else ci);
          ci2 = (if placeIcon \<and> iconBoxes \<noteq> None
                 then insertCollisionBox E ci1 (box (the iconBoxes))
                        (icon_ignore_placement (layout b)) (bucketInstanceId b) fi
                        (ID (collisionGroup locals))
                 else ci1)
      in if placeText \<and> glyphCircles \<noteq> None
         then insertCollisionCircles E ci2 (circles (the glyphCircles))
                (text_ignore_placement (layout b)) (bucketInstanceId b) tf
                (ID (collisionGroup locals))
         else ci2)"
  by (simp add: insertPlaced_def Let_def split: option.splits)

lemma sweep_parts:
  "collisionArrays iconBucket =
     Some [\<lparr> textBox = None, iconBox = Some unitBox, textCircles = None,
             textFeatureIndex = None, iconFeatureIndex = Some 3 \<rparr>]"
  "placeTextBox loggingIndex sweepArgs sweepLocals
     \<lparr> textBox = None, iconBox = Some unitBox, textCircles = None,
       textFeatureIndex = None, iconFeatureIndex = Some 3 \<rparr> iconOnlyLabel sweepStart =
     (None, None, False, sweepStart)"
  "placeTextCircles loggingIndex sweepArgs sweepLocals
     \<lparr> textBox = None, iconBox = Some unitBox, textCircles = None,
       textFeatureIndex = None, iconFeatureIndex = Some 3 \<rparr> iconOnlyLabel False False sweepStart =
     (None, False, False, sweepStart)"
  "placeIconBox loggingIndex sweepArgs sweepLocals
     \<lparr> textBox = None, iconBox = Some unitBox, textCircles = None,
       textFeatureIndex = None, iconFeatureIndex = Some 3 \<rparr> False sweepStart =
     (Some \<lparr> box = [0, 0, 1, 1], offscreen = False \<rparr>, True, False,
      sweepStart\<lparr> self := (newPlacement None)\<lparr> collisionIndex := [''placeCollisionBox''] \<rparr> \<rparr>)"
  "coupleTextAndIcon (textOptional sweepLocals) (iconOptional sweepLocals) iconOnlyLabel False True =
     (False, True)"
  "alwaysShowText sweepLocals = False" "alwaysShowIcon sweepLocals = False"
  "ID (collisionGroup sweepLocals) = Some 0"
  "insertCollisionBox loggingIndex ci b ignorePlacement bucketId feature g =
     ci @ [''insertCollisionBox'']"
  by (simp_all add: sweepStart_def iconBucket_def placeTextBox_def placeTextCircles_def
      placeIconBox_def coupleTextAndIcon_def sweepLocals_def bucketLocals_def plainLayout_def
      loggingIndex_def unitBox_def iconOnlyLabel_def newPlacement_def sweepArgs_def Let_def)

text \<open>
  C2, as the code has it. Two buckets are placed one after the other with the same
  \<open>seenCrossTileIDs\<close>, the first one not holding for fade and placed without an
  error; both hold a symbol instance of crossTileID \<open>c\<close>, not seen before the sweep;
  \<open>i\<close> is the first index of such an instance in the first bucket. Then the turn of
  the loop for \<open>i\<close> is the resolution of that instance. When it raises nothing, with
  \<open>placeText\<close> and \<open>placeIcon\<close> the coupled results of the placement of its text box,
  its text circles and its icon box: \<open>c\<close> is marked as seen, the JointPlacement
  recorded for \<open>c\<close> is that of \<open>placeText\<close> and \<open>placeIcon\<close>, and the collision index
  is the one the three placement queries left, with the glyph boxes inserted if
  \<open>placeText\<close> and there are glyph boxes, then the icon boxes inserted if \<open>placeIcon\<close>
  and there are icon boxes, then the glyph circles inserted if \<open>placeText\<close> and there
  are glyph circles, and nothing else (so nothing at all when nothing is placed).
  \<open>c\<close> is seen when the first bucket is done; and the turn for every later instance
  of \<open>c\<close> in the first bucket and for every instance of \<open>c\<close> in the second bucket
  returns the state and \<open>seenCrossTileIDs\<close> as it found them: nothing is computed
  for it and nothing inserted, whatever the collision index is.
\<close>

theorem duplicate_crossTileID_resolved_once:
  assumes start1: "placeLayerBucket_start E args1 st0 = (locals1, s1)"
    and run1: "placeLayerBucket E args1 (st0, seen0) = (None, st1, seen1)"
    and nh: "\<not> holdingForFade args1"
    and unseen: "\<not> truthy (seen0 c)"
    and i: "i < length (symbolInstances (bucket st0))"
      "crossTileID (symbolInstances (bucket st0) ! i) = c"
      "\<forall>k<i. crossTileID (symbolInstances (bucket st0) ! k) \<noteq> c"
    and start2: "placeLayerBucket_start E args2 (st1\<lparr> bucket := b2 \<rparr>) = (locals2, s2)"
    and j: "crossTileID (symbolInstances b2 ! j) = c"
  shows "(\<forall>si. placeSymbolInstances E args1 locals1 [0..<i] (s1, seen0) = (None, si) \<longrightarrow>
            placeSymbolInstance E args1 locals1 i si =
              (case resolveSymbolInstance E args1 locals1 i (fst si) of
                 (Some e, st') \<Rightarrow> (Some e, st', snd si)
               | (None, st') \<Rightarrow> (None, st', (snd si)(c \<mapsto> True)))) \<and>
         (\<forall>si arrs glyphBoxes placeText1 t1 glyphCircles placeText2 offscreen2 t2 iconBoxes
             placeIcon1 offscreen3 t3 placeText placeIcon st' seen'.
            placeSymbolInstances E args1 locals1 [0..<i] (s1, seen0) = (None, si) \<and>
            collisionArrays (bucket (fst si)) = Some arrs \<and>
            placeTextBox E args1 locals1 (arrs ! i) (symbolInstances (bucket st0) ! i) (fst si) =
              (None, glyphBoxes, placeText1, t1) \<and>
            placeTextCircles E args1 locals1 (arrs ! i) (symbolInstances (bucket st0) ! i)
              placeText1 (case glyphBoxes of None \<Rightarrow> False | Some r \<Rightarrow> offscreen r) t1 =
              (glyphCircles, placeText2, offscreen2, t2) \<and>
            placeIconBox E args1 locals1 (arrs ! i) offscreen2 t2 =
              (iconBoxes, placeIcon1, offscreen3, t3) \<and>
            coupleTextAndIcon (textOptional locals1) (iconOptional locals1)
              (symbolInstances (bucket st0) ! i) placeText2 placeIcon1 = (placeText, placeIcon) \<and>
            placeSymbolInstance E args1 locals1 i si = (None, st', seen') \<longrightarrow>
            seen' = (snd si)(c \<mapsto> True) \<and>
            lookup (placements (self st')) c =
              Some \<lparr> jp_text = placeText \<or> alwaysShowText locals1,
                     jp_icon = placeIcon \<or> alwaysShowIcon locals1,
                     skipFade = offscreen3 \<or> justReloaded (bucket t3) \<rparr> \<and>
            collisionIndex (self st') =
              (let ci1 = (if placeText \<and> glyphBoxes \<noteq> None
                          then insertCollisionBox E (collisionIndex (self t3)) (box (the glyphBoxes))
                                 (text_ignore_placement (layout (bucket t3)))
                                 (bucketInstanceId (bucket t3))
                                 (case textFeatureIndex (arrs ! i) of Some n \<Rightarrow> n | None \<Rightarrow> 0)
                                 (ID (collisionGroup locals1))
                          else collisionIndex (self t3));
                   ci2 = (if placeIcon \<and> iconBoxes \<noteq> None
                          then insertCollisionBox E ci1 (box (the iconBoxes))
                                 (icon_ignore_placement (layout (bucket t3)))
                                 (bucketInstanceId (bucket t3))
                                 (case iconFeatureIndex (arrs ! i) of Some n \<Rightarrow> n | None \<Rightarrow> 0)
                                 (ID (collisionGroup locals1))
                          else ci1)
               in if placeText \<and> glyphCircles \<noteq> None
                  then insertCollisionCircles E ci2 (circles (the glyphCircles))
                         (text_ignore_placement (layout (bucket t3)))
                         (bucketInstanceId (bucket t3))
                         (case textFeatureIndex (arrs ! i) of Some n \<Rightarrow> n | None \<Rightarrow> 0)
                         (ID (collisionGroup locals1))
                  else ci2)) \<and>
         truthy (seen1 c) \<and>
         (\<forall>k sk. i < k \<and> crossTileID (symbolInstances (bucket st0) ! k) = c \<and>
            placeSymbolInstances E args1 locals1 [0..<k] (s1, seen0) = (None, sk) \<longrightarrow>
            placeSymbolInstance E args1 locals1 k sk = (None, sk)) \<and>
         (\<forall>e sj. placeSymbolInstances E args2 locals2 [0..<j] (s2, seen1) = (e, sj) \<longrightarrow>
            placeSymbolInstance E args2 locals2 j sj = (None, sj)) \<and>
         (\<forall>b glyphBoxes iconBoxes glyphCircles tf fi ci.
            insertPlaced E locals1 b False False glyphBoxes iconBoxes glyphCircles tf fi ci = ci)"
proof -
  note same1 = start_symbolInstances[OF start1]
  have seen1: "truthy (seen1 c)"
  proof -
    obtain sl seenl where loop1:
      "placeSymbolInstances E args1 locals1 [0..<length (symbolInstances (bucket s1))] (s1, seen0)
         = (None, sl, seenl)" and "seen1 = seenl"
      using run1 start1
      by (auto simp: placeLayerBucket_def Let_def split: prod.splits option.splits)
    have "i \<in> set [0..<length (symbolInstances (bucket s1))]"
      using i(1) same1 by simp
    with loop_invariant[OF loop1] nh
    have "truthy (seenl (crossTileID (symbolInstances (bucket s1) ! i)))" by blast
    then show ?thesis
      using i(2) same1 \<open>seen1 = seenl\<close> by simp
  qed
  have first: "symbolInstances (bucket (fst si)) = symbolInstances (bucket st0) \<and>
      placeSymbolInstance E args1 locals1 i si =
        (case resolveSymbolInstance E args1 locals1 i (fst si) of
           (Some e, st') \<Rightarrow> (Some e, st', snd si)
         | (None, st') \<Rightarrow> (None, st', (snd si)(c \<mapsto> True)))"
    if pre: "placeSymbolInstances E args1 locals1 [0..<i] (s1, seen0) = (None, si)" for si
  proof -
    obtain sti seeni where si: "si = (sti, seeni)" by (cases si)
    note inv = loop_invariant[OF pre[unfolded si]]
    have insts: "symbolInstances (bucket sti) = symbolInstances (bucket st0)"
      using inv same1 by simp
    have "\<forall>k\<in>set [0..<i]. crossTileID (symbolInstances (bucket s1) ! k) \<noteq> c"
      using i(3) same1 by simp
    with inv have "seeni c = seen0 c" by blast
    with unseen have "\<not> truthy (seeni (crossTileID (symbolInstances (bucket sti) ! i)))"
      using insts i(2) by simp
    from turn_unseen[of seeni sti i args1 E locals1, OF this nh] insts i(2)
    have "placeSymbolInstance E args1 locals1 i si =
                (case resolveSymbolInstance E args1 locals1 i (fst si) of
                   (Some e, st') \<Rightarrow> (Some e, st', snd si)
                 | (None, st') \<Rightarrow> (None, st', (snd si)(c \<mapsto> True)))"
      by (simp add: si split: prod.splits option.splits)
    with insts show ?thesis by (simp add: si)
  qed
  have inserted: "seen' = (snd si)(c \<mapsto> True) \<and>
      lookup (placements (self st')) c =
        Some \<lparr> jp_text = placeText \<or> alwaysShowText locals1,
               jp_icon = placeIcon \<or> alwaysShowIcon locals1,
               skipFade = offscreen3 \<or> justReloaded (bucket t3) \<rparr> \<and>
      collisionIndex (self st') =
        (let ci1 = (if placeText \<and> glyphBoxes \<noteq> None
                    then insertCollisionBox E (collisionIndex (self t3)) (box (the glyphBoxes))
                           (text_ignore_placement (layout (bucket t3)))
                           (bucketInstanceId (bucket t3))
                           (case textFeatureIndex (arrs ! i) of Some n \<Rightarrow> n | None \<Rightarrow> 0)
                           (ID (collisionGroup locals1))
                    else collisionIndex (self t3));
             ci2 = (if placeIcon \<and> iconBoxes \<noteq> None
                    then insertCollisionBox E ci1 (box (the iconBoxes))
                           (icon_ignore_placement (layout (bucket t3)))
                           (bucketInstanceId (bucket t3))
                           (case iconFeatureIndex (arrs ! i) of Some n \<Rightarrow> n | None \<Rightarrow> 0)
                           (ID (collisionGroup locals1))
                    else ci1)
         in if placeText \<and> glyphCircles \<noteq> None
            then insertCollisionCircles E ci2 (circles (the glyphCircles))
                   (text_ignore_placement (layout (bucket t3)))
                   (bucketInstanceId (bucket t3))
                   (case textFeatureIndex (arrs ! i) of Some n \<Rightarrow> n | None \<Rightarrow> 0)
                   (ID (collisionGroup locals1))
            else ci2)"
    if a: "placeSymbolInstances E args1 locals1 [0..<i] (s1, seen0) = (None, si) \<and>
        collisionArrays (bucket (fst si)) = Some arrs \<and>
        placeTextBox E args1 locals1 (arrs ! i) (symbolInstances (bucket st0) ! i) (fst si) =
          (None, glyphBoxes, placeText1, t1) \<and>
        placeTextCircles E args1 locals1 (arrs ! i) (symbolInstances (bucket st0) ! i)
          placeText1 (case glyphBoxes of None \<Rightarrow> False | Some r \<Rightarrow> offscreen r) t1 =
          (glyphCircles, placeText2, offscreen2, t2) \<and>
        placeIconBox E args1 locals1 (arrs ! i) offscreen2 t2 =
          (iconBoxes, placeIcon1, offscreen3, t3) \<and>
        coupleTextAndIcon (textOptional locals1) (iconOptional locals1)
          (symbolInstances (bucket st0) ! i) placeText2 placeIcon1 = (placeText, placeIcon) \<and>
        placeSymbolInstance E args1 locals1 i si = (None, st', seen')"
    for si arrs glyphBoxes placeText1 t1 glyphCircles placeText2 offscreen2 t2 iconBoxes
      placeIcon1 offscreen3 t3 placeText placeIcon st' seen'
  proof -
    from a first[of si] have insts: "symbolInstances (bucket (fst si)) = symbolInstances (bucket st0)"
      and turn: "(case resolveSymbolInstance E args1 locals1 i (fst si) of
           (Some e, st') \<Rightarrow> (Some e, st', snd si)
         | (None, st') \<Rightarrow> (None, st', (snd si)(c \<mapsto> True))) = (None, st', seen')"
      by simp_all
    from turn have res: "resolveSymbolInstance E args1 locals1 i (fst si) = (None, st')"
      and seen': "seen' = (snd si)(c \<mapsto> True)"
      by (auto split: prod.splits option.splits)
    from a have arrs: "collisionArrays (bucket (fst si)) = Some arrs"
      and tb: "placeTextBox E args1 locals1 (arrs ! i) (symbolInstances (bucket (fst si)) ! i)
                 (fst si) = (None, glyphBoxes, placeText1, t1)"
      and tc: "placeTextCircles E args1 locals1 (arrs ! i) (symbolInstances (bucket (fst si)) ! i)
                 placeText1 (case glyphBoxes of None \<Rightarrow> False | Some r \<Rightarrow> offscreen r) t1 =
                 (glyphCircles, placeText2, offscreen2, t2)"
      and ib: "placeIconBox E args1 locals1 (arrs ! i) offscreen2 t2 =
                 (iconBoxes, placeIcon1, offscreen3, t3)"
      and cp: "coupleTextAndIcon (textOptional locals1) (iconOptional locals1)
                 (symbolInstances (bucket (fst si)) ! i) placeText2 placeIcon1 =
                 (placeText, placeIcon)"
      by (simp_all add: insts)
    note ins = resolve_inserts[OF res arrs tb tc ib cp]
    from ins(2) have "lookup (placements (self st')) c =
        Some \<lparr> jp_text = placeText \<or> alwaysShowText locals1,
               jp_icon = placeIcon \<or> alwaysShowIcon locals1,
               skipFade = offscreen3 \<or> justReloaded (bucket t3) \<rparr>"
      using insts i(2) by simp
    with seen' ins(1) show ?thesis
      by (simp only: insertPlaced_guards)
  qed
  show ?thesis
  proof (intro conjI allI impI)
    fix si assume pre: "placeSymbolInstances E args1 locals1 [0..<i] (s1, seen0) = (None, si)"
    from first[OF pre]
    show "placeSymbolInstance E args1 locals1 i si =
                (case resolveSymbolInstance E args1 locals1 i (fst si) of
                   (Some e, st') \<Rightarrow> (Some e, st', snd si)
                 | (None, st') \<Rightarrow> (None, st', (snd si)(c \<mapsto> True)))"
      by simp
  next
    fix si arrs glyphBoxes placeText1 t1 glyphCircles placeText2 offscreen2 t2 iconBoxes
      placeIcon1 offscreen3 t3 placeText placeIcon st' seen'
    assume a: "placeSymbolInstances E args1 locals1 [0..<i] (s1, seen0) = (None, si) \<and>
        collisionArrays (bucket (fst si)) = Some arrs \<and>
        placeTextBox E args1 locals1 (arrs ! i) (symbolInstances (bucket st0) ! i) (fst si) =
          (None, glyphBoxes, placeText1, t1) \<and>
        placeTextCircles E args1 locals1 (arrs ! i) (symbolInstances (bucket st0) ! i)
          placeText1 (case glyphBoxes of None \<Rightarrow> False | Some r \<Rightarrow> offscreen r) t1 =
          (glyphCircles, placeText2, offscreen2, t2) \<and>
        placeIconBox E args1 locals1 (arrs ! i) offscreen2 t2 =
          (iconBoxes, placeIcon1, offscreen3, t3) \<and>
        coupleTextAndIcon (textOptional locals1) (iconOptional locals1)
          (symbolInstances (bucket st0) ! i) placeText2 placeIcon1 = (placeText, placeIcon) \<and>
        placeSymbolInstance E args1 locals1 i si = (None, st', seen')"
    note r = inserted[OF a]
    from r show "seen' = (snd si)(c \<mapsto> True)" by (rule conjunct1)
    from r show "lookup (placements (self st')) c =
        Some \<lparr> jp_text = placeText \<or> alwaysShowText locals1,
               jp_icon = placeIcon \<or> alwaysShowIcon locals1,
               skipFade = offscreen3 \<or> justReloaded (bucket t3) \<rparr>"
      by (rule conjunct2[THEN conjunct1])
    from r show "collisionIndex (self st') =
        (let ci1 = (if placeText \<and> glyphBoxes \<noteq> None
                    then insertCollisionBox E (collisionIndex (self t3)) (box (the glyphBoxes))
                           (text_ignore_placement (layout (bucket t3)))
                           (bucketInstanceId (bucket t3))
                           (case textFeatureIndex (arrs ! i) of Some n \<Rightarrow> n | None \<Rightarrow> 0)
                           (ID (collisionGroup locals1))
                    else collisionIndex (self t3));
             ci2 = (if placeIcon \<and> iconBoxes \<noteq> None
                    then insertCollisionBox E ci1 (box (the iconBoxes))
                           (icon_ignore_placement (layout (bucket t3)))
                           (bucketInstanceId (bucket t3))
                           (case iconFeatureIndex (arrs ! i) of Some n \<Rightarrow> n | None \<Rightarrow> 0)
                           (ID (collisionGroup locals1))
                    else ci1)
         in if placeText \<and> glyphCircles \<noteq> None
            then insertCollisionCircles E ci2 (circles (the glyphCircles))
                   (text_ignore_placement (layout (bucket t3)))
                   (bucketInstanceId (bucket t3))
                   (case textFeatureIndex (arrs ! i) of Some n \<Rightarrow> n | None \<Rightarrow> 0)
                   (ID (collisionGroup locals1))
            else ci2)"
      by (rule conjunct2[THEN conjunct2])
  next
    show "truthy (seen1 c)" by (rule seen1)
  next
    fix k sk
    assume later: "i < k \<and> crossTileID (symbolInstances (bucket st0) ! k) = c \<and>
      placeSymbolInstances E args1 locals1 [0..<k] (s1, seen0) = (None, sk)"
    obtain stk seenk where sk: "sk = (stk, seenk)" by (cases sk)
    from later
    have pre: "placeSymbolInstances E args1 locals1 [0..<k] (s1, seen0) = (None, stk, seenk)"
      by (simp add: sk)
    note inv = loop_invariant[OF pre]
    have insts: "symbolInstances (bucket stk) = symbolInstances (bucket st0)"
      using inv same1 by simp
    have "i \<in> set [0..<k]" using later by simp
    with inv nh have "truthy (seenk (crossTileID (symbolInstances (bucket s1) ! i)))" by blast
    then have "truthy (seenk (crossTileID (symbolInstances (bucket stk) ! k)))"
      using insts later i(2) same1 by simp
    from turn_seen[of seenk stk k E args1 locals1, OF this]
    show "placeSymbolInstance E args1 locals1 k sk = (None, sk)"
      by (simp add: sk)
  next
    fix e sj assume pre: "placeSymbolInstances E args2 locals2 [0..<j] (s2, seen1) = (e, sj)"
    obtain stj seenj where sj: "sj = (stj, seenj)" by (cases sj)
    note inv = loop_invariant[OF pre[unfolded sj]]
    have insts: "symbolInstances (bucket stj) = symbolInstances b2"
      using inv start_symbolInstances[OF start2] by simp
    have "truthy (seenj c)" using inv seen1 by blast
    then have "truthy (seenj (crossTileID (symbolInstances (bucket stj) ! j)))"
      using insts j by simp
    from turn_seen[of seenj stj j E args2 locals2, OF this]
    show "placeSymbolInstance E args2 locals2 j sj = (None, sj)"
      by (simp add: sj)
  next
    fix b glyphBoxes iconBoxes glyphCircles tf fi ci
    show "insertPlaced E locals1 b False False glyphBoxes iconBoxes glyphCircles tf fi ci = ci"
      by (rule insertPlaced_nothing)
  qed
qed

text \<open>
  Two buckets with the same label, an icon without text: the resolution of the first
  one queries the collision index once and inserts the icon box the query placed,
  and records the icon as placed; the second bucket changes nothing.
\<close>

theorem duplicate_crossTileID_resolved_once_witness:
  "placeLayerBucket loggingIndex sweepArgs (sweepStart, Map.empty) =
     (None, iconPlaced, [7 \<mapsto> True]) \<and>
   placeSymbolInstance loggingIndex sweepArgs sweepLocals 0 (sweepStart, Map.empty) =
     (None, iconPlaced, [7 \<mapsto> True]) \<and>
   lookup (placements (self iconPlaced)) 7 =
     Some \<lparr> jp_text = False, jp_icon = True, skipFade = False \<rparr> \<and>
   collisionIndex (self iconPlaced) =
     insertCollisionBox loggingIndex [''placeCollisionBox''] [0, 0, 1, 1] False 1 3 (Some 0) \<and>
   collisionIndex (self iconPlaced) = [''placeCollisionBox'', ''insertCollisionBox''] \<and>
   truthy ([7 \<mapsto> True] (7::nat)) \<and>
   placeSymbolInstance loggingIndex sweepArgs sweepLocals 0 (iconPlaced, [7 \<mapsto> True]) =
     (None, iconPlaced, [7 \<mapsto> True]) \<and>
   placeLayerBucket loggingIndex sweepArgs (iconPlaced\<lparr> bucket := iconBucket \<rparr>, [7 \<mapsto> True]) =
     (None, iconPlaced, [7 \<mapsto> True])"
proof -
  have unseen: "\<not> truthy (Map.empty (7::nat))" by (simp add: truthy_def)
  have i: "0 < length (symbolInstances (bucket sweepStart))"
    "crossTileID (symbolInstances (bucket sweepStart) ! 0) = 7"
    "\<forall>k<0. crossTileID (symbolInstances (bucket sweepStart) ! k) \<noteq> 7"
    by (simp_all add: sweep_facts)
  have start2: "placeLayerBucket_start loggingIndex sweepArgs (iconPlaced\<lparr> bucket := iconBucket \<rparr>) =
      (sweepLocals, iconPlaced)"
    by (simp add: sweep_facts sweep_second_start)
  have j: "crossTileID (symbolInstances iconBucket ! 0) = 7" by (simp add: sweep_facts)
  note once = duplicate_crossTileID_resolved_once[OF sweep_start' sweep_first sweep_facts(1)
      unseen i start2 j]
  note first = once[THEN conjunct1, rule_format, of "(sweepStart, Map.empty)"]
  note inserted = once[THEN conjunct2, THEN conjunct1, rule_format,
      of "(sweepStart, Map.empty)"
         "[\<lparr> textBox = None, iconBox = Some unitBox, textCircles = None,
             textFeatureIndex = None, iconFeatureIndex = Some 3 \<rparr>]"
         None False sweepStart None False False sweepStart
         "Some \<lparr> box = [0, 0, 1, 1], offscreen = False \<rparr>" True False
         "sweepStart\<lparr> self := (newPlacement None)\<lparr> collisionIndex := [''placeCollisionBox''] \<rparr> \<rparr>"
         False True iconPlaced "[7 \<mapsto> True]"]
  note seen = once[THEN conjunct2, THEN conjunct2, THEN conjunct1]
  note second = once[THEN conjunct2, THEN conjunct2, THEN conjunct2, THEN conjunct2, THEN conjunct1,
      rule_format, of None "(iconPlaced, [7 \<mapsto> True])"]
  from first have t1: "placeSymbolInstance loggingIndex sweepArgs sweepLocals 0 (sweepStart, Map.empty) =
     (None, iconPlaced, [7 \<mapsto> True])"
    by (simp add: sweep_resolve')
  have pre: "placeSymbolInstances loggingIndex sweepArgs sweepLocals [0..<0] (sweepStart, Map.empty) =
      (None, sweepStart, Map.empty)"
    by simp
  have parts: "collisionArrays (bucket (fst (sweepStart, Map.empty :: nat \<rightharpoonup> bool))) =
        Some [\<lparr> textBox = None, iconBox = Some unitBox, textCircles = None,
                textFeatureIndex = None, iconFeatureIndex = Some 3 \<rparr>]"
    "symbolInstances (bucket sweepStart) ! 0 = iconOnlyLabel"
    "[\<lparr> textBox = None, iconBox = Some unitBox, textCircles = None,
        textFeatureIndex = None, iconFeatureIndex = Some 3 \<rparr>] ! 0 =
      \<lparr> textBox = None, iconBox = Some unitBox, textCircles = None,
        textFeatureIndex = None, iconFeatureIndex = Some 3 \<rparr>"
    by (simp_all add: sweep_parts(1) sweep_facts)
  have queried: "bucket (sweepStart\<lparr> self := (newPlacement None)\<lparr> collisionIndex := [''placeCollisionBox''] \<rparr> \<rparr>) =
        iconBucket"
    "collisionIndex (self (sweepStart\<lparr> self := (newPlacement None)\<lparr> collisionIndex := [''placeCollisionBox''] \<rparr> \<rparr>)) =
        [''placeCollisionBox'']"
    "icon_ignore_placement (layout iconBucket) = False" "bucketInstanceId iconBucket = 1"
    "justReloaded iconBucket = False"
    by (simp_all add: sweepStart_def iconBucket_def plainLayout_def)
  from inserted pre t1
  have "lookup (placements (self iconPlaced)) 7 =
          Some \<lparr> jp_text = False, jp_icon = True, skipFade = False \<rparr> \<and>
        collisionIndex (self iconPlaced) =
          insertCollisionBox loggingIndex [''placeCollisionBox''] [0, 0, 1, 1] False 1 3 (Some 0)"
    unfolding parts by (simp add: sweep_parts queried)
  then have ins: "lookup (placements (self iconPlaced)) 7 =
          Some \<lparr> jp_text = False, jp_icon = True, skipFade = False \<rparr>"
    "collisionIndex (self iconPlaced) =
          insertCollisionBox loggingIndex [''placeCollisionBox''] [0, 0, 1, 1] False 1 3 (Some 0)"
    "collisionIndex (self iconPlaced) = [''placeCollisionBox'', ''insertCollisionBox'']"
    by (simp_all add: sweep_facts)
  from second have t2: "placeSymbolInstance loggingIndex sweepArgs sweepLocals 0 (iconPlaced, [7 \<mapsto> True]) =
     (None, iconPlaced, [7 \<mapsto> True])"
    by simp
  have run2: "placeLayerBucket loggingIndex sweepArgs (iconPlaced\<lparr> bucket := iconBucket \<rparr>, [7 \<mapsto> True]) =
     (None, iconPlaced, [7 \<mapsto> True])"
    by (simp add: placeLayerBucket_def sweep_second_start sweep_facts t2)
  from sweep_first t1 seen t2 run2 ins show ?thesis
    by simp
qed

text \<open>
  The claim as it is written fails where the first instance is not placed: on a
  collision index that places nothing, the sweep over the two buckets resolves the
  first instance with one query and marks it seen, the second bucket changes nothing,
  and nothing at all has been inserted into the collision index.
\<close>

theorem duplicate_crossTileID_resolved_once_counterexample:
  "placeLayerBucket rejectingIndex sweepArgs (sweepStart, Map.empty) =
     (None, iconRejected, [7 \<mapsto> True]) \<and>
   placeLayerBucket rejectingIndex sweepArgs (iconRejected\<lparr> bucket := iconBucket \<rparr>, [7 \<mapsto> True]) =
     (None, iconRejected, [7 \<mapsto> True]) \<and>
   collisionIndex (self sweepStart) = [] \<and>
   collisionIndex (self iconRejected) = [''placeCollisionBox'']"
proof -
  have t1: "placeSymbolInstance rejectingIndex sweepArgs sweepLocals 0 (sweepStart, Map.empty) =
     (None, iconRejected, [7 \<mapsto> True])"
    by (simp add: placeSymbolInstance_def sweep_facts rejected_resolve truthy_def)
  have t2: "placeSymbolInstance rejectingIndex sweepArgs sweepLocals 0 (iconRejected, [7 \<mapsto> True]) =
     (None, iconRejected, [7 \<mapsto> True])"
    by (simp add: placeSymbolInstance_def sweep_facts rejected_facts truthy_def)
  have "collisionIndex (self sweepStart) = []"
    by (simp add: sweepStart_def newPlacement_def)
  then show ?thesis
    by (simp add: placeLayerBucket_def rejected_start rejected_facts sweep_facts t1 t2)
qed

subsection \<open>Text and icon coupling\<close>

text \<open>
  C4, as the code has it. For a symbol instance without glyph vertices and with icon
  vertices, in a layer whose text is not optional: the coupling leaves the icon's
  placement boolean as the icon placement gave it, and the text's boolean becomes
  \<open>placeIcon && placeText\<close> unless the icon is optional, when it stays as it was.
\<close>

theorem coupling_without_text:
  assumes "numHorizontalGlyphVertices symbolInstance = 0"
    and "numVerticalGlyphVertices symbolInstance = 0"
    and "numIconVertices symbolInstance > 0"
  shows "coupleTextAndIcon False iconOpt symbolInstance placeText placeIcon =
           (if iconOpt then placeText else placeIcon \<and> placeText, placeIcon)"
  using assms by (simp add: coupleTextAndIcon_def)

theorem coupling_without_text_witness:
  "coupleTextAndIcon False False iconOnlyLabel True False = (False, False)"
  using coupling_without_text[of iconOnlyLabel False True False]
  by (simp add: iconOnlyLabel_def)

text \<open>
  The claim as it is written fails for a label whose icon is placed and whose text is
  not (a label without text has no text box to place): the icon is placed, the text
  is not, and the two booleans differ, in the coupling and in the JointPlacement that
  the resolution of the label records.
\<close>

theorem coupling_without_text_counterexample:
  "numHorizontalGlyphVertices iconOnlyLabel = 0 \<and>
   numVerticalGlyphVertices iconOnlyLabel = 0 \<and>
   numIconVertices iconOnlyLabel > 0 \<and>
   textOptional sweepLocals = False \<and>
   coupleTextAndIcon False False iconOnlyLabel False True = (False, True) \<and>
   lookup (placements (self (snd (resolveSymbolInstance loggingIndex sweepArgs sweepLocals 0
     sweepStart)))) 7 = Some \<lparr> jp_text = False, jp_icon = True, skipFade = False \<rparr>"
proof -
  have "textOptional sweepLocals = False"
    by (simp add: sweepLocals_def bucketLocals_def iconBucket_def plainLayout_def)
  moreover have "coupleTextAndIcon False False iconOnlyLabel False True = (False, True)"
    by (simp add: coupleTextAndIcon_def iconOnlyLabel_def)
  ultimately show ?thesis
    by (simp add: iconOnlyLabel_def sweep_resolve' sweep_facts)
qed

end
